theory Spec2Isabelle
  imports Complex_Main
begin

section \<open>Numbers\<close>

text \<open>
  The components compute with JavaScript numbers. Paper counts are integers (\<open>int\<close>);
  screen coordinates and scale results are modelled as exact reals. A division whose
  divisor is zero yields NaN or an infinity in the source; the model makes that outcome
  explicit as \<open>None\<close>, so that a scale computation is finite exactly when it is \<open>Some\<close>.
\<close>

definition js_div :: "real \<Rightarrow> real \<Rightarrow> real option" where
  "js_div a b = (if b = 0 then None else Some (a / b))"

text \<open>
  Values met where the source expects a number. Reading a key of a plain object (the
  parsed JSON payload) gives the own property when there is one; otherwise a member
  inherited from \<^verbatim>\<open>Object.prototype\<close> when the key names one (a function, or the
  prototype itself for \<^verbatim>\<open>__proto__\<close>); otherwise \<^verbatim>\<open>undefined\<close>.
\<close>

definition object_prototype_keys :: "string list" where
  "object_prototype_keys =
     [''constructor'', ''hasOwnProperty'', ''isPrototypeOf'', ''propertyIsEnumerable'',
      ''toLocaleString'', ''toString'', ''valueOf'', ''__proto__'', ''__defineGetter__'',
      ''__defineSetter__'', ''__lookupGetter__'', ''__lookupSetter__'']"

datatype 'a js_prop = Own 'a | Inherited | Undefined

definition js_get :: "(string \<rightharpoonup> 'a) \<Rightarrow> string \<Rightarrow> 'a js_prop" where
  "js_get obj key =
     (case obj key of
        Some a \<Rightarrow> Own a
      | None \<Rightarrow> (if key \<in> set object_prototype_keys then Inherited else Undefined))"

text \<open>
  A count, a running sum or a total is a number, an inherited member (\<open>JMember\<close>), or
  the string that \<^verbatim>\<open>+\<close> builds once an operand is not a number (\<open>JStr\<close>: the text
  of the member appended to the digits so far). Neither of the last two converts to a
  number: \<^verbatim>\<open>ToNumber\<close> gives NaN, written \<open>None\<close>.
\<close>

datatype jsval = JNum int | JMember | JStr

fun js_add :: "jsval \<Rightarrow> jsval \<Rightarrow> jsval" where
  "js_add (JNum a) (JNum b) = JNum (a + b)"
| "js_add a b = JStr"

fun to_number :: "jsval \<Rightarrow> int option" where
  "to_number (JNum n) = Some n"
| "to_number v = None"

text \<open>\<^verbatim>\<open>v > 0\<close>: false when \<open>v\<close> converts to NaN.\<close>

fun js_gt0 :: "jsval \<Rightarrow> bool" where
  "js_gt0 (JNum n) = (0 < n)"
| "js_gt0 v = False"

text \<open>\<^verbatim>\<open>Math.round\<close>: the nearest integer, halves rounded up.\<close>

definition Math_round :: "real \<Rightarrow> int" where
  "Math_round v = \<lfloor>v + 1 / 2\<rfloor>"

text \<open>\<^verbatim>\<open>Math.max(...xs, 1)\<close>: the largest element, floored to 1.\<close>

definition Math_max1 :: "int list \<Rightarrow> int" where
  "Math_max1 xs = foldr max xs 1"

text \<open>The same over values that may not be numbers: one NaN argument makes the result NaN.\<close>

definition Math_max1_js :: "jsval list \<Rightarrow> int option" where
  "Math_max1_js vs =
     foldr (\<lambda>v r. case to_number v of
                     None \<Rightarrow> None
                   | Some a \<Rightarrow> (case r of None \<Rightarrow> None | Some b \<Rightarrow> Some (max a b)))
       vs (Some 1)"

text \<open>\<^verbatim>\<open>Array.prototype.indexOf\<close>: the first position of an element, \<open>-1\<close> when absent.\<close>

fun indexOfFrom :: "'a list \<Rightarrow> 'a \<Rightarrow> int \<Rightarrow> int" where
  "indexOfFrom [] a i = - 1"
| "indexOfFrom (b # bs) a i = (if b = a then i else indexOfFrom bs a (i + 1))"

definition indexOf :: "'a list \<Rightarrow> 'a \<Rightarrow> int" where
  "indexOf bs a = indexOfFrom bs a 0"

text \<open>Reading an array at a computed integer index: \<^verbatim>\<open>undefined\<close> out of range.\<close>

definition at_index :: "'a list \<Rightarrow> int \<Rightarrow> 'a option" where
  "at_index bs i = (if 0 \<le> i \<and> i < int (length bs) then Some (bs ! nat i) else None)"

section \<open>Flow chart: data model\<close>

text \<open>\<^verbatim>\<open>FlowData\<close> of \<^verbatim>\<open>api.ts\<close>; a \<^verbatim>\<open>Record<string, T>\<close> is a partial map.\<close>

record daily =
  date :: string
  cluster_counts :: "string \<rightharpoonup> int"

record flow_data =
  start_date :: string
  end_date :: string
  clusters :: "string list"
  colors :: "string \<rightharpoonup> string"
  daily_data :: "daily list"

record stacked_value =
  sv_cluster :: string
  sv_y0 :: jsval
  sv_y1 :: jsval
  sv_count :: jsval

record stacked_day =
  sd_date :: string
  sd_values :: "stacked_value list"
  sd_total :: jsval

record processed =
  stackedData :: "stacked_day list"
  dates :: "string list"
  maxY :: "int option"
  pd_clusters :: "string list"

record dimensions =
  width :: real
  height :: real

text \<open>\<^verbatim>\<open>const margin = { top: 20, right: 150, bottom: 50, left: 60 }\<close>\<close>

definition margin_top :: real where "margin_top = 20"
definition margin_right :: real where "margin_right = 150"
definition margin_bottom :: real where "margin_bottom = 50"
definition margin_left :: real where "margin_left = 60"

section \<open>Flow chart: the stack builder\<close>

text \<open>
  \<^verbatim>\<open>day.cluster_counts[cluster] || 0\<close>: \<^verbatim>\<open>undefined\<close> and a zero both give 0; an
  inherited member is truthy and is the count.
\<close>

definition count_of :: "daily \<Rightarrow> string \<Rightarrow> jsval" where
  "count_of day cluster =
     (case js_get (cluster_counts day) cluster of
        Own n \<Rightarrow> (if n = 0 then JNum 0 else JNum n)
      | Inherited \<Rightarrow> JMember
      | Undefined \<Rightarrow> JNum 0)"

text \<open>
  The inner \<^verbatim>\<open>clusters.forEach\<close> of \<^verbatim>\<open>processedData\<close>: the loop variables
  \<^verbatim>\<open>y0\<close>, \<^verbatim>\<open>values\<close> and \<^verbatim>\<open>total\<close> are threaded through the recursion
  (as \<open>y0\<close>, \<open>vals\<close> and \<open>tot\<close>).
\<close>

fun stackClusters ::
  "daily \<Rightarrow> string list \<Rightarrow> jsval \<Rightarrow> stacked_value list \<Rightarrow> jsval
     \<Rightarrow> stacked_value list \<times> jsval" where
  "stackClusters day [] y0 vals tot = (vals, tot)"
| "stackClusters day (cluster # rest) y0 vals tot =
     (let count = count_of day cluster in
      stackClusters day rest (js_add y0 count)
        (vals @ [\<lparr>sv_cluster = cluster, sv_y0 = y0, sv_y1 = js_add y0 count,
                  sv_count = count\<rparr>])
        (js_add tot count))"

definition stackDay :: "string list \<Rightarrow> daily \<Rightarrow> stacked_day" where
  "stackDay cs day =
     (case stackClusters day cs (JNum 0) [] (JNum 0) of
        (vals, tot) \<Rightarrow> \<lparr>sd_date = date day, sd_values = vals, sd_total = tot\<rparr>)"

definition processedData :: "flow_data \<Rightarrow> processed option" where
  "processedData fd =
     (if daily_data fd = [] then None
      else
        let stacked = map (stackDay (clusters fd)) (daily_data fd) in
        Some \<lparr>stackedData = stacked,
              dates = map date (daily_data fd),
              maxY = Math_max1_js (map sd_total stacked),
              pd_clusters = clusters fd\<rparr>)"

section \<open>Flow chart: scales\<close>

definition innerWidth :: "dimensions \<Rightarrow> real" where
  "innerWidth dims = width dims - margin_left - margin_right"

definition innerHeight :: "dimensions \<Rightarrow> real" where
  "innerHeight dims = height dims - margin_top - margin_bottom"

text \<open>\<^verbatim>\<open>Math.max(processedData.dates.length - 1, 1)\<close>, the divisor of \<^verbatim>\<open>xScale\<close>.\<close>

definition dateRange :: "processed \<Rightarrow> int" where
  "dateRange pd = max (int (length (dates pd)) - 1) 1"

definition xScale :: "processed \<Rightarrow> dimensions \<Rightarrow> string \<Rightarrow> real option" where
  "xScale pd dims d =
     (let idx = indexOf (dates pd) d in
      map_option (\<lambda>q. margin_left + q * innerWidth dims)
        (js_div (of_int idx) (of_int (dateRange pd))))"

text \<open>\<^verbatim>\<open>yScale\<close> at a number; the result is NaN when \<^verbatim>\<open>maxY\<close> is.\<close>

definition yScale :: "processed \<Rightarrow> dimensions \<Rightarrow> real \<Rightarrow> real option" where
  "yScale pd dims v =
     (case maxY pd of
        None \<Rightarrow> None
      | Some m \<Rightarrow>
          map_option (\<lambda>q. margin_top + innerHeight dims - q * innerHeight dims)
            (js_div v (of_int m)))"

text \<open>
  \<^verbatim>\<open>yScale\<close> at a stored \<^verbatim>\<open>y0\<close> or \<^verbatim>\<open>y1\<close>: the division converts its operand,
  so a value that is not a number gives NaN.
\<close>

definition yScale_val :: "processed \<Rightarrow> dimensions \<Rightarrow> jsval \<Rightarrow> real option" where
  "yScale_val pd dims v =
     (case to_number v of None \<Rightarrow> None | Some n \<Rightarrow> yScale pd dims (of_int n))"

record scale_fns =
  sc_xScale :: "string \<Rightarrow> real option"
  sc_yScale :: "real \<Rightarrow> real option"
  sc_innerWidth :: real
  sc_innerHeight :: real

definition scales :: "flow_data \<Rightarrow> dimensions \<Rightarrow> scale_fns option" where
  "scales fd dims =
     (case processedData fd of
        None \<Rightarrow> None
      | Some pd \<Rightarrow>
          Some \<lparr>sc_xScale = xScale pd dims, sc_yScale = yScale pd dims,
                sc_innerWidth = innerWidth dims, sc_innerHeight = innerHeight dims\<rparr>)"

section \<open>Flow chart: interaction state and hit-testing\<close>

record tooltip_data =
  tt_x :: real
  tt_y :: real
  tt_date :: string
  tt_cluster :: string
  tt_count :: jsval
  tt_total :: jsval
  tt_color :: "string js_prop"

text \<open>The three \<^verbatim>\<open>useState\<close> cells of \<^verbatim>\<open>FlowVisualization\<close> that the handlers write.\<close>

record flow_state =
  tooltip :: "tooltip_data option"
  hoveredCluster :: "string option"
  selectedCluster :: "string option"

record mouse_event =
  clientX :: real
  clientY :: real

record dom_rect =
  rect_left :: real
  rect_top :: real

text \<open>
  \<^verbatim>\<open>flowData.colors[cluster] || '#6B7280'\<close>: \<^verbatim>\<open>undefined\<close> and the empty string fall
  back to the default; an inherited member is truthy and is kept.
\<close>

definition color_of :: "flow_data \<Rightarrow> string \<Rightarrow> string js_prop" where
  "color_of fd cluster =
     (case js_get (colors fd) cluster of
        Own col \<Rightarrow> (if col = [] then Own ''#6B7280'' else Own col)
      | Inherited \<Rightarrow> Inherited
      | Undefined \<Rightarrow> Own ''#6B7280'')"

text \<open>
  ``Find closest date'' of \<^verbatim>\<open>handleMouseMove\<close>. It runs after the bounds check, where a
  zero \<^verbatim>\<open>innerWidth\<close> forces \<^verbatim>\<open>relX = 0\<close>: the quotient is then NaN, NaN survives
  \<^verbatim>\<open>Math.round\<close>, \<^verbatim>\<open>Math.min\<close> and \<^verbatim>\<open>Math.max\<close>, and
  \<^verbatim>\<open>stackedData[NaN]\<close> is \<^verbatim>\<open>undefined\<close>.
\<close>

definition closestDay :: "processed \<Rightarrow> dimensions \<Rightarrow> real \<Rightarrow> stacked_day option" where
  "closestDay pd dims x =
     (let relX = x - margin_left in
      case js_div relX (innerWidth dims) of
        None \<Rightarrow> None
      | Some q \<Rightarrow>
          let dateIdx = Math_round (q * of_int (int (length (dates pd)) - 1));
              clampedIdx = max 0 (min dateIdx (int (length (dates pd)) - 1))
          in at_index (stackedData pd) clampedIdx)"

text \<open>
  ``Find which cluster the mouse is over'': the \<^verbatim>\<open>for ... of\<close> scan with its
  \<^verbatim>\<open>break\<close>. A comparison against NaN is false, so a band whose screen bound is not
  finite is skipped.
\<close>

fun findCluster :: "processed \<Rightarrow> dimensions \<Rightarrow> real \<Rightarrow> stacked_value list \<Rightarrow> string option" where
  "findCluster pd dims y [] = None"
| "findCluster pd dims y (v # vs) =
     (case yScale_val pd dims (sv_y0 v) of
        None \<Rightarrow> findCluster pd dims y vs
      | Some y0Screen \<Rightarrow>
          (case yScale_val pd dims (sv_y1 v) of
             None \<Rightarrow> findCluster pd dims y vs
           | Some y1Screen \<Rightarrow>
               if y \<ge> y1Screen \<and> y \<le> y0Screen \<and> js_gt0 (sv_count v)
               then Some (sv_cluster v)
               else findCluster pd dims y vs))"

text \<open>
  \<^verbatim>\<open>handleMouseMove\<close>. The canvas is mounted whenever the handler fires. A cluster name
  is tested for truthiness before the tooltip is built, so the empty name clears the
  tooltip.
\<close>

definition handleMouseMove ::
  "flow_data \<Rightarrow> dimensions \<Rightarrow> dom_rect \<Rightarrow> mouse_event \<Rightarrow> flow_state \<Rightarrow> flow_state" where
  "handleMouseMove fd dims rect e st =
     (case processedData fd of
        None \<Rightarrow> st
      | Some pd \<Rightarrow>
          let x = clientX e - rect_left rect;
              y = clientY e - rect_top rect
          in
          if x < margin_left \<or> x > width dims - margin_right \<or>
             y < margin_top \<or> y > height dims - margin_bottom
          then st\<lparr>tooltip := None, hoveredCluster := None\<rparr>
          else
            (case closestDay pd dims x of
               None \<Rightarrow> st\<lparr>tooltip := None, hoveredCluster := None\<rparr>
             | Some day \<Rightarrow>
                 (case findCluster pd dims y (sd_values day) of
                    None \<Rightarrow> st\<lparr>hoveredCluster := None, tooltip := None\<rparr>
                  | Some foundCluster \<Rightarrow>
                      if foundCluster = [] then st\<lparr>hoveredCluster := Some foundCluster, tooltip := None\<rparr>
                      else
                        (case find (\<lambda>v. sv_cluster v = foundCluster) (sd_values day) of
                           None \<Rightarrow> st\<lparr>hoveredCluster := Some foundCluster\<rparr>
                         | Some v \<Rightarrow>
                             st\<lparr>hoveredCluster := Some foundCluster,
                                tooltip := Some
                                  \<lparr>tt_x = clientX e, tt_y = clientY e, tt_date = sd_date day,
                                   tt_cluster = foundCluster, tt_count = sv_count v,
                                   tt_total = sd_total day,
                                   tt_color = color_of fd foundCluster\<rparr>\<rparr>))))"

text \<open>The canvas's \<^verbatim>\<open>onMouseLeave\<close>.\<close>

definition canvasMouseLeave :: "flow_state \<Rightarrow> flow_state" where
  "canvasMouseLeave st = st\<lparr>tooltip := None, hoveredCluster := None\<rparr>"

text \<open>
  \<^verbatim>\<open>handleClick\<close>. The first argument says whether the host passed \<^verbatim>\<open>onClusterClick\<close>;
  the second component of the result is the call made to it, if any.
\<close>

definition handleClick :: "bool \<Rightarrow> flow_state \<Rightarrow> flow_state \<times> (string \<times> string) option" where
  "handleClick hasOnClusterClick st =
     (case hoveredCluster st of
        None \<Rightarrow> (st, None)
      | Some hovered \<Rightarrow>
          if hovered = [] then (st, None)
          else
            (st\<lparr>selectedCluster :=
                  (if selectedCluster st = Some hovered then None else Some hovered)\<rparr>,
             (case tooltip st of
                None \<Rightarrow> None
              | Some t \<Rightarrow> if hasOnClusterClick then Some (hovered, tt_date t) else None)))"

text \<open>The legend rows' \<^verbatim>\<open>onMouseEnter\<close>, \<^verbatim>\<open>onMouseLeave\<close> and \<^verbatim>\<open>onClick\<close>.\<close>

definition legendMouseEnter :: "string \<Rightarrow> flow_state \<Rightarrow> flow_state" where
  "legendMouseEnter cluster st = st\<lparr>hoveredCluster := Some cluster\<rparr>"

definition legendMouseLeave :: "flow_state \<Rightarrow> flow_state" where
  "legendMouseLeave st = st\<lparr>hoveredCluster := None\<rparr>"

definition legendClick :: "string \<Rightarrow> flow_state \<Rightarrow> flow_state" where
  "legendClick cluster st =
     st\<lparr>selectedCluster := (if selectedCluster st = Some cluster then None else Some cluster)\<rparr>"

text \<open>The tooltip's percentage line: \<^verbatim>\<open>Math.round((tooltip.count / tooltip.total) * 100)\<close>.\<close>

definition tooltip_percent :: "tooltip_data \<Rightarrow> int option" where
  "tooltip_percent t =
     (case to_number (tt_count t) of
        None \<Rightarrow> None
      | Some c \<Rightarrow>
          (case to_number (tt_total t) of
             None \<Rightarrow> None
           | Some tot \<Rightarrow>
               map_option (\<lambda>q. Math_round (q * 100)) (js_div (of_int c) (of_int tot))))"

section \<open>Flow chart: rendering\<close>

text \<open>
  The drawing effect, reduced to the stacked areas it fills: one closed path per cluster,
  from the last cluster to the first, along the \<^verbatim>\<open>y1\<close> values forward and the
  \<^verbatim>\<open>y0\<close> values backward. \<open>None\<close> is the early \<^verbatim>\<open>return\<close>: nothing is painted.
\<close>

record band_path =
  bp_cluster :: string
  bp_points :: "(real option \<times> real option) list"
  bp_alpha :: real
  bp_outlined :: bool

definition drawBand :: "processed \<Rightarrow> dimensions \<Rightarrow> flow_state \<Rightarrow> nat \<Rightarrow> band_path" where
  "drawBand pd dims st i =
     (let cluster = pd_clusters pd ! i;
          isHovered = (hoveredCluster st = Some cluster);
          isSelected = (selectedCluster st = Some cluster);
          isOtherHovered = (hoveredCluster st \<noteq> None \<and> hoveredCluster st \<noteq> Some cluster);
          topLine = map (\<lambda>day. (xScale pd dims (sd_date day),
                                 yScale_val pd dims (sv_y1 (sd_values day ! i))))
                      (stackedData pd);
          bottomLine = map (\<lambda>day. (xScale pd dims (sd_date day),
                                    yScale_val pd dims (sv_y0 (sd_values day ! i))))
                         (rev (stackedData pd))
      in \<lparr>bp_cluster = cluster,
          bp_points = topLine @ bottomLine,
          bp_alpha = (if isHovered \<or> isSelected then 9 / 10
                      else if isOtherHovered then 3 / 10 else 7 / 10),
          bp_outlined = (isHovered \<or> isSelected)\<rparr>)"

definition drawChart :: "flow_data \<Rightarrow> dimensions \<Rightarrow> flow_state \<Rightarrow> band_path list option" where
  "drawChart fd dims st =
     (case processedData fd of
        None \<Rightarrow> None
      | Some pd \<Rightarrow>
          (case scales fd dims of
             None \<Rightarrow> None
           | Some sc \<Rightarrow> Some (map (drawBand pd dims st) (rev [0..<length (pd_clusters pd)]))))"

text \<open>
  What the component returns: the empty-state message, or the chart with its legend rows
  (the first twelve clusters) and the tooltip, when one is set.
\<close>

datatype flow_view =
  EmptyState string
| ChartView "string list" "tooltip_data option"

definition render :: "flow_data \<Rightarrow> flow_state \<Rightarrow> flow_view" where
  "render fd st =
     (case processedData fd of
        None \<Rightarrow> EmptyState ''No flow data available''
      | Some pd \<Rightarrow> ChartView (take 12 (clusters fd)) (tooltip st))"

section \<open>Cluster graph: data model\<close>

text \<open>\<^verbatim>\<open>ClusterNode\<close>, \<^verbatim>\<open>ClusterLink\<close> and \<^verbatim>\<open>ClusterGraphData\<close> of \<^verbatim>\<open>api.ts\<close>.\<close>

record cluster_node =
  node_id :: string
  node_name :: string
  paperCount :: int
  topTaskTags :: "string list"
  topModalities :: "string list"
  paperIds :: "string list"

record cluster_link =
  source :: string
  target :: string
  sharedCount :: int
  sharedPaperIds :: "string list"

record cluster_graph_data =
  nodes :: "cluster_node list"
  links :: "cluster_link list"

text \<open>
  \<^verbatim>\<open>GraphNode\<close> adds the optional simulation fields; a \<^verbatim>\<open>GraphLink\<close> endpoint is an
  id or, once the solver has resolved it, the node object.
\<close>

record graph_node = cluster_node +
  pos_x :: "real option"
  pos_y :: "real option"
  vel_x :: "real option"
  vel_y :: "real option"

datatype endpoint = EndId string | EndNode graph_node

record graph_link =
  gl_source :: endpoint
  gl_target :: endpoint
  gl_sharedCount :: int
  gl_sharedPaperIds :: "string list"

record graph_input =
  gi_nodes :: "graph_node list"
  gi_links :: "graph_link list"

section \<open>Cluster graph: derived values\<close>

definition toGraphNode :: "cluster_node \<Rightarrow> graph_node" where
  "toGraphNode n =
     \<lparr>node_id = node_id n, node_name = node_name n, paperCount = paperCount n,
      topTaskTags = topTaskTags n, topModalities = topModalities n, paperIds = paperIds n,
      pos_x = None, pos_y = None, vel_x = None, vel_y = None\<rparr>"

definition toGraphLink :: "cluster_link \<Rightarrow> graph_link" where
  "toGraphLink l =
     \<lparr>gl_source = EndId (source l), gl_target = EndId (target l),
      gl_sharedCount = sharedCount l, gl_sharedPaperIds = sharedPaperIds l\<rparr>"

text \<open>\<^verbatim>\<open>transformedData\<close>: what is passed to the force graph as \<^verbatim>\<open>graphData\<close>.\<close>

definition transformedData :: "cluster_graph_data \<Rightarrow> graph_input" where
  "transformedData graphData =
     \<lparr>gi_nodes = map toGraphNode (nodes graphData),
      gi_links = map toGraphLink (links graphData)\<rparr>"

definition maxPaperCount :: "cluster_graph_data \<Rightarrow> int" where
  "maxPaperCount graphData = Math_max1 (map paperCount (nodes graphData))"

definition maxLinkStrength :: "cluster_graph_data \<Rightarrow> int" where
  "maxLinkStrength graphData = Math_max1 (map sharedCount (links graphData))"

text \<open>
  \<^verbatim>\<open>getNodeSize\<close>, with the hovered node, the selected node and \<^verbatim>\<open>maxPaperCount\<close> it
  closes over as arguments.
\<close>

definition getNodeSize :: "string option \<Rightarrow> string option \<Rightarrow> int \<Rightarrow> graph_node \<Rightarrow> real option" where
  "getNodeSize hoveredNode selectedNodeId maxPC node =
     (case map_option (\<lambda>q. 12 + q * 28) (js_div (of_int (paperCount node)) (of_int maxPC)) of
        None \<Rightarrow> None
      | Some baseSize \<Rightarrow>
          let isHovered = (hoveredNode = Some (node_id node));
              isSelected = (selectedNodeId = Some (node_id node));
              isOtherHovered = (hoveredNode \<noteq> None \<and> hoveredNode \<noteq> Some (node_id node))
          in if isHovered \<or> isSelected then Some (baseSize * (14 / 10))
             else if isOtherHovered then Some (baseSize * (75 / 100))
             else Some baseSize)"

fun endpoint_id :: "endpoint \<Rightarrow> string" where
  "endpoint_id (EndId s) = s"
| "endpoint_id (EndNode n) = node_id n"

definition getLinkWidth :: "string option \<Rightarrow> int \<Rightarrow> graph_link \<Rightarrow> real option" where
  "getLinkWidth hoveredNode maxLS link =
     (case map_option (\<lambda>q. 1 + q * 5) (js_div (of_int (gl_sharedCount link)) (of_int maxLS)) of
        None \<Rightarrow> None
      | Some baseWidth \<Rightarrow>
          let sourceId = endpoint_id (gl_source link);
              targetId = endpoint_id (gl_target link)
          in if hoveredNode = Some sourceId \<or> hoveredNode = Some targetId
             then Some (baseWidth * 2)
             else Some baseWidth)"

text \<open>
  The radius callback given to \<^verbatim>\<open>forceCollide\<close>:
  \<^verbatim>\<open>12 + ((node.paperCount || 1) / maxPaperCount) * 28 + 40\<close>.
\<close>

definition collisionRadius :: "int \<Rightarrow> graph_node \<Rightarrow> real option" where
  "collisionRadius maxPC node =
     map_option (\<lambda>q. 12 + q * 28 + 40)
       (js_div (of_int (if paperCount node = 0 then 1 else paperCount node)) (of_int maxPC))"

text \<open>\<^verbatim>\<open>isolatedNodeIds\<close>: the ids of the nodes that no link names as source or target.\<close>

definition connectedIds :: "cluster_graph_data \<Rightarrow> string list" where
  "connectedIds graphData = concat (map (\<lambda>link. [source link, target link]) (links graphData))"

definition isolatedNodeIds :: "cluster_graph_data \<Rightarrow> string list" where
  "isolatedNodeIds graphData =
     map node_id (filter (\<lambda>n. node_id n \<notin> set (connectedIds graphData)) (nodes graphData))"

text \<open>The strength callbacks given to \<^verbatim>\<open>forceX\<close> and \<^verbatim>\<open>forceY\<close>.\<close>

definition forceX_strength :: "cluster_graph_data \<Rightarrow> graph_node \<Rightarrow> real" where
  "forceX_strength graphData node =
     (if node_id node \<in> set (isolatedNodeIds graphData) then 15 / 100 else 2 / 100)"

definition forceY_strength :: "cluster_graph_data \<Rightarrow> graph_node \<Rightarrow> real" where
  "forceY_strength graphData node =
     (if node_id node \<in> set (isolatedNodeIds graphData) then 15 / 100 else 2 / 100)"

section \<open>Notions the claims use\<close>

text \<open>Every count the chart reads is, when a number, non-negative (the data model's rule).\<close>

definition nonneg_counts :: "flow_data \<Rightarrow> bool" where
  "nonneg_counts fd =
     list_all (\<lambda>day. list_all (\<lambda>c. case count_of day c of JNum n \<Rightarrow> 0 \<le> n | _ \<Rightarrow> True)
                       (clusters fd))
       (daily_data fd)"

text \<open>
  No count the chart reads is an inherited member: every cluster whose name is a key of
  \<^verbatim>\<open>Object.prototype\<close> has an entry of its own in every day's \<open>cluster_counts\<close>.
\<close>

definition no_inherited_counts :: "flow_data \<Rightarrow> bool" where
  "no_inherited_counts fd =
     list_all (\<lambda>day. list_all (\<lambda>c. count_of day c \<noteq> JMember) (clusters fd)) (daily_data fd)"

text \<open>The count as an integer, where it is one.\<close>

definition cnt :: "daily \<Rightarrow> string \<Rightarrow> int" where
  "cnt day c = (case count_of day c of JNum n \<Rightarrow> n | _ \<Rightarrow> 0)"

text \<open>The links incident to a node id: those that name it as source or as target.\<close>

definition incident :: "cluster_graph_data \<Rightarrow> string \<Rightarrow> cluster_link list" where
  "incident g a = filter (\<lambda>l. source l = a \<or> target l = a) (links g)"

text \<open>
  The bands that \<open>stackClusters\<close> appends, written without the accumulators; the proofs
  below relate the loop to this form.
\<close>

fun bands :: "daily \<Rightarrow> string list \<Rightarrow> jsval \<Rightarrow> stacked_value list" where
  "bands day [] y0 = []"
| "bands day (c # cs) y0 =
     \<lparr>sv_cluster = c, sv_y0 = y0, sv_y1 = js_add y0 (count_of day c),
      sv_count = count_of day c\<rparr>
       # bands day cs (js_add y0 (count_of day c))"

section \<open>Example inputs\<close>

text \<open>The default viewport, a canvas at the page origin, and the initial state.\<close>

definition dims0 :: dimensions where
  "dims0 = \<lparr>width = 800, height = 400\<rparr>"

definition rect0 :: dom_rect where
  "rect0 = \<lparr>rect_left = 0, rect_top = 0\<rparr>"

definition st0 :: flow_state where
  "st0 = \<lparr>tooltip = None, hoveredCluster = None, selectedCluster = None\<rparr>"

text \<open>The spec's scenario: clusters X and Y, one day with X = 3 and Y = 0.\<close>

definition flow_xy :: flow_data where
  "flow_xy = \<lparr>start_date = ''2024-01-01'', end_date = ''2024-01-01'',
     clusters = [''X'', ''Y''], colors = Map.empty,
     daily_data = [\<lparr>date = ''2024-01-01'', cluster_counts = [''X'' \<mapsto> 3, ''Y'' \<mapsto> 0]\<rparr>]\<rparr>"

text \<open>\<^verbatim>\<open>mockFlowData\<close> and \<^verbatim>\<open>emptyFlowData\<close> of \<^verbatim>\<open>FlowVisualization.test.tsx\<close>.\<close>

definition flow_mock :: flow_data where
  "flow_mock = \<lparr>start_date = ''2024-01-01'', end_date = ''2024-01-07'',
     clusters = [''LLM / Foundation Models'', ''Computer Vision'', ''Multimodal AI''],
     colors = [''LLM / Foundation Models'' \<mapsto> ''#FF6B6B'',
               ''Computer Vision'' \<mapsto> ''#4ECDC4'',
               ''Multimodal AI'' \<mapsto> ''#45B7D1''],
     daily_data =
       [\<lparr>date = ''2024-01-01'',
         cluster_counts = [''LLM / Foundation Models'' \<mapsto> 5, ''Computer Vision'' \<mapsto> 3,
                           ''Multimodal AI'' \<mapsto> 2]\<rparr>,
        \<lparr>date = ''2024-01-02'',
         cluster_counts = [''LLM / Foundation Models'' \<mapsto> 7, ''Computer Vision'' \<mapsto> 4,
                           ''Multimodal AI'' \<mapsto> 3]\<rparr>,
        \<lparr>date = ''2024-01-03'',
         cluster_counts = [''LLM / Foundation Models'' \<mapsto> 6, ''Computer Vision'' \<mapsto> 5,
                           ''Multimodal AI'' \<mapsto> 4]\<rparr>]\<rparr>"

definition flow_none :: flow_data where
  "flow_none = \<lparr>start_date = ''2024-01-01'', end_date = ''2024-01-07'',
     clusters = [], colors = Map.empty, daily_data = []\<rparr>"

text \<open>One day on which every count is zero.\<close>

definition flow_zero :: flow_data where
  "flow_zero = \<lparr>start_date = ''2024-01-01'', end_date = ''2024-01-01'',
     clusters = [''X'', ''Y''], colors = Map.empty,
     daily_data = [\<lparr>date = ''2024-01-01'', cluster_counts = [''X'' \<mapsto> 0, ''Y'' \<mapsto> 0]\<rparr>]\<rparr>"

text \<open>Two entries that carry the same date.\<close>

definition flow_dup :: flow_data where
  "flow_dup = \<lparr>start_date = ''2024-01-01'', end_date = ''2024-01-01'',
     clusters = [''X'', ''Y''], colors = Map.empty,
     daily_data = [\<lparr>date = ''2024-01-01'', cluster_counts = [''X'' \<mapsto> 1]\<rparr>,
                   \<lparr>date = ''2024-01-01'', cluster_counts = [''Y'' \<mapsto> 1]\<rparr>]\<rparr>"

text \<open>A cluster that holds one paper in three hundred.\<close>

definition flow_small :: flow_data where
  "flow_small = \<lparr>start_date = ''2024-01-01'', end_date = ''2024-01-01'',
     clusters = [''X'', ''Y''], colors = Map.empty,
     daily_data = [\<lparr>date = ''2024-01-01'', cluster_counts = [''X'' \<mapsto> 1, ''Y'' \<mapsto> 299]\<rparr>]\<rparr>"

text \<open>
  A cluster named like a member of \<^verbatim>\<open>Object.prototype\<close>, with no entry in the day's
  counts.
\<close>

definition flow_proto :: flow_data where
  "flow_proto = \<lparr>start_date = ''2024-01-01'', end_date = ''2024-01-01'',
     clusters = [''constructor'', ''X''], colors = Map.empty,
     daily_data = [\<lparr>date = ''2024-01-01'', cluster_counts = [''X'' \<mapsto> 2]\<rparr>]\<rparr>"

text \<open>A cluster whose name is the empty string.\<close>

definition flow_noname :: flow_data where
  "flow_noname = \<lparr>start_date = ''2024-01-01'', end_date = ''2024-01-01'',
     clusters = [[]], colors = Map.empty,
     daily_data = [\<lparr>date = ''2024-01-01'', cluster_counts = [[] \<mapsto> 3]\<rparr>]\<rparr>"

definition mkNode :: "string \<Rightarrow> int \<Rightarrow> cluster_node" where
  "mkNode i n = \<lparr>node_id = i, node_name = i, paperCount = n, topTaskTags = [],
     topModalities = [], paperIds = []\<rparr>"

definition mkLink :: "string \<Rightarrow> string \<Rightarrow> int \<Rightarrow> cluster_link" where
  "mkLink a b n = \<lparr>source = a, target = b, sharedCount = n, sharedPaperIds = []\<rparr>"

text \<open>The spec's graph scenario (A with 10 papers, B with 5, one link), plus an unlinked C.\<close>

definition graph_abc :: cluster_graph_data where
  "graph_abc = \<lparr>nodes = [mkNode ''A'' 10, mkNode ''B'' 5, mkNode ''C'' 0],
                links = [mkLink ''A'' ''B'' 3]\<rparr>"

definition graph_dangling :: cluster_graph_data where
  "graph_dangling = \<lparr>nodes = [mkNode ''A'' 10], links = [mkLink ''A'' ''Z'' 3]\<rparr>"

definition graph_empty :: cluster_graph_data where
  "graph_empty = \<lparr>nodes = [], links = []\<rparr>"

lemmas flow_eval =
  handleMouseMove_def processedData_def stackDay_def count_of_def js_get_def
  object_prototype_keys_def Let_def closestDay_def yScale_def yScale_val_def xScale_def
  js_div_def Math_round_def Math_max1_js_def at_index_def dims0_def
  rect0_def st0_def innerWidth_def innerHeight_def margin_left_def margin_top_def
  margin_right_def margin_bottom_def dateRange_def indexOf_def color_of_def

lemmas graph_eval =
  mkNode_def mkLink_def toGraphNode_def toGraphLink_def transformedData_def
  maxPaperCount_def maxLinkStrength_def Math_max1_def collisionRadius_def getNodeSize_def
  getLinkWidth_def js_div_def connectedIds_def isolatedNodeIds_def incident_def
  forceX_strength_def forceY_strength_def

section \<open>The stack builder as prefix sums\<close>

lemma stackClusters_bands:
  "stackClusters day cs y0 vals tot =
     (vals @ bands day cs y0, foldl js_add tot (map (count_of day) cs))"
  by (induction cs arbitrary: y0 vals tot) (simp_all add: Let_def)

lemma length_bands: "length (bands day cs y0) = length cs"
  by (induction cs arbitrary: y0) simp_all

lemma bands_member:
  "v \<in> set (bands day cs b) \<Longrightarrow> sv_count v = count_of day (sv_cluster v) \<and> sv_cluster v \<in> set cs"
  by (induction cs arbitrary: b) auto

lemma stackDay_values: "sd_values (stackDay cs day) = bands day cs (JNum 0)"
  by (simp add: stackDay_def stackClusters_bands)

lemma stackDay_total:
  "sd_total (stackDay cs day) = foldl js_add (JNum 0) (map (count_of day) cs)"
  by (simp add: stackDay_def stackClusters_bands)

lemma stackDay_date: "sd_date (stackDay cs day) = date day"
  by (simp add: stackDay_def stackClusters_bands)

lemma count_of_num: "count_of day c \<noteq> JMember \<Longrightarrow> count_of day c = JNum (cnt day c)"
  by (simp add: cnt_def count_of_def split: js_prop.splits)

lemma count_of_JNum: "count_of day c = JNum n \<Longrightarrow> cnt day c = n"
  by (simp add: cnt_def)

lemma count_of_absent:
  "cluster_counts day c = None \<Longrightarrow> c \<notin> set object_prototype_keys \<Longrightarrow> count_of day c = JNum 0"
  by (simp add: count_of_def js_get_def)

lemma count_of_own:
  "cluster_counts day c = Some n \<Longrightarrow> count_of day c = JNum n"
  by (simp add: count_of_def js_get_def)

lemma total_num:
  "\<forall>c \<in> set cs. count_of day c = JNum (cnt day c) \<Longrightarrow>
     foldl js_add (JNum t) (map (count_of day) cs) = JNum (t + sum_list (map (cnt day) cs))"
  by (induction cs arbitrary: t) (simp_all add: add.assoc)

lemma bands_nth:
  assumes "\<forall>c \<in> set cs. count_of day c = JNum (cnt day c)" and "i < length cs"
  shows "bands day cs (JNum b) ! i =
       \<lparr>sv_cluster = cs ! i,
        sv_y0 = JNum (b + sum_list (map (cnt day) (take i cs))),
        sv_y1 = JNum (b + sum_list (map (cnt day) (take i cs)) + cnt day (cs ! i)),
        sv_count = JNum (cnt day (cs ! i))\<rparr>"
  using assms
proof (induction cs arbitrary: b i)
  case Nil
  then show ?case by simp
next
  case (Cons c cs)
  from Cons.prems have c: "count_of day c = JNum (cnt day c)"
    and rest: "\<forall>a \<in> set cs. count_of day a = JNum (cnt day a)"
    by simp_all
  show ?case
  proof (cases i)
    case 0
    with c show ?thesis by simp
  next
    case (Suc j)
    with Cons.prems have "j < length cs" by simp
    from Cons.IH [OF rest this, of "b + cnt day c"] Suc c show ?thesis
      by (simp add: add.assoc)
  qed
qed

lemma take_Suc_sum:
  "i < length cs \<Longrightarrow>
     sum_list (map f (take (Suc i) cs)) = sum_list (map f (take i cs)) + (f (cs ! i) :: int)"
  by (simp add: take_Suc_conv_app_nth)

lemma bands_hd_y0: "cs \<noteq> [] \<Longrightarrow> sv_y0 (hd (bands day cs y0)) = y0"
  by (cases cs) simp_all

lemma bands_last_y1:
  assumes "\<forall>c \<in> set cs. count_of day c = JNum (cnt day c)" and "cs \<noteq> []"
  shows "sv_y1 (last (bands day cs (JNum b))) = JNum (b + sum_list (map (cnt day) cs))"
  using assms
proof (induction cs arbitrary: b)
  case Nil
  then show ?case by simp
next
  case (Cons c cs)
  from Cons.prems have c: "count_of day c = JNum (cnt day c)"
    and rest: "\<forall>a \<in> set cs. count_of day a = JNum (cnt day a)"
    by simp_all
  show ?case
  proof (cases "cs = []")
    case True
    with c show ?thesis by simp
  next
    case False
    then have "bands day cs (JNum (b + cnt day c)) \<noteq> []"
      by (cases cs) simp_all
    with Cons.IH [OF rest False, of "b + cnt day c"] c show ?thesis
      by (simp add: add.assoc)
  qed
qed

lemma js_add_JNum: "js_add a b = JNum r \<Longrightarrow> \<exists>x y. a = JNum x \<and> b = JNum y"
  by (cases a; cases b) simp_all

lemma foldl_js_add_JNum:
  "foldl js_add v (map f cs) = JNum r \<Longrightarrow>
     (\<exists>t. v = JNum t) \<and> (\<forall>c \<in> set cs. \<exists>n. f c = JNum n)"
proof (induction cs arbitrary: v)
  case Nil
  then show ?case by simp
next
  case (Cons c cs)
  then have "foldl js_add (js_add v (f c)) (map f cs) = JNum r" by simp
  from Cons.IH [OF this] obtain t
    where t: "js_add v (f c) = JNum t" and rest: "\<forall>a \<in> set cs. \<exists>n. f a = JNum n"
    by blast
  from js_add_JNum [OF t] rest show ?case by auto
qed

lemma js_gt0D: "js_gt0 v \<Longrightarrow> \<exists>n. v = JNum n \<and> 0 < n"
  by (cases v) simp_all

lemma Math_max1_ge1: "1 \<le> Math_max1 xs"
  by (induction xs) (simp_all add: Math_max1_def)

lemma Math_max1_ge: "a \<in> set xs \<Longrightarrow> a \<le> Math_max1 xs"
  by (induction xs) (auto simp: Math_max1_def)

lemma Math_max1_js_nums: "Math_max1_js (map JNum ns) = Some (Math_max1 ns)"
  by (induction ns) (simp_all add: Math_max1_js_def Math_max1_def)

lemma Math_max1_js_Some:
  "Math_max1_js vs = Some m \<Longrightarrow> \<exists>ns. vs = map JNum ns"
proof (induction vs arbitrary: m)
  case Nil
  then show ?case by simp
next
  case (Cons v vs)
  from Cons.prems obtain a b where a: "to_number v = Some a" and b: "Math_max1_js vs = Some b"
    by (auto simp: Math_max1_js_def split: option.splits)
  from a have v: "v = JNum a" by (cases v) simp_all
  from Cons.IH [OF b] obtain ns where "vs = map JNum ns" by blast
  with v have "v # vs = map JNum (a # ns)" by simp
  then show ?case by (rule exI)
qed

lemma processedData_Some:
  "daily_data fd \<noteq> [] \<Longrightarrow>
     processedData fd =
       Some \<lparr>stackedData = map (stackDay (clusters fd)) (daily_data fd),
             dates = map date (daily_data fd),
             maxY = Math_max1_js (map sd_total (map (stackDay (clusters fd)) (daily_data fd))),
             pd_clusters = clusters fd\<rparr>"
  by (simp add: processedData_def Let_def)

lemma processedData_SomeD:
  assumes "processedData fd = Some pd"
  shows "daily_data fd \<noteq> []"
    and "stackedData pd = map (stackDay (clusters fd)) (daily_data fd)"
    and "dates pd = map date (daily_data fd)"
    and "maxY pd = Math_max1_js (map sd_total (stackedData pd))"
    and "pd_clusters pd = clusters fd"
  using assms by (auto simp: processedData_def Let_def split: if_splits)

lemma no_inherited_countsD:
  "no_inherited_counts fd \<Longrightarrow> day \<in> set (daily_data fd) \<Longrightarrow> c \<in> set (clusters fd) \<Longrightarrow>
     count_of day c = JNum (cnt day c)"
  by (simp add: no_inherited_counts_def list_all_iff count_of_num)

lemma nonneg_countsD:
  "nonneg_counts fd \<Longrightarrow> day \<in> set (daily_data fd) \<Longrightarrow> c \<in> set (clusters fd) \<Longrightarrow>
     0 \<le> cnt day c"
  by (auto simp: nonneg_counts_def list_all_iff cnt_def split: jsval.splits)

text \<open>With no inherited member among the counts, every total is a number and so is \<open>maxY\<close>.\<close>

lemma stackDay_total_num:
  assumes "no_inherited_counts fd" and "day \<in> set (daily_data fd)"
  shows "sd_total (stackDay (clusters fd) day) = JNum (sum_list (map (cnt day) (clusters fd)))"
proof -
  have "\<forall>c \<in> set (clusters fd). count_of day c = JNum (cnt day c)"
    using no_inherited_countsD [OF assms] by blast
  from total_num [OF this, of 0] show ?thesis
    by (simp add: stackDay_total)
qed

lemma maxY_num:
  assumes pd: "processedData fd = Some pd" and ni: "no_inherited_counts fd"
  shows "maxY pd =
    Some (Math_max1 (map (\<lambda>day. sum_list (map (cnt day) (clusters fd))) (daily_data fd)))"
proof -
  have "map sd_total (stackedData pd) =
      map JNum (map (\<lambda>day. sum_list (map (cnt day) (clusters fd))) (daily_data fd))"
    using stackDay_total_num [OF ni]
    by (simp add: processedData_SomeD(2) [OF pd])
  then show ?thesis
    by (simp only: processedData_SomeD(4) [OF pd] Math_max1_js_nums)
qed

section \<open>Scales, hit-testing and the graph: auxiliary facts\<close>

lemma js_div_Some: "b \<noteq> 0 \<Longrightarrow> js_div a b = Some (a / b)"
  by (simp add: js_div_def)

lemma dateRange_ge1: "1 \<le> dateRange pd"
  by (simp add: dateRange_def)

lemma yScale_Some:
  "maxY pd = Some m \<Longrightarrow> 1 \<le> m \<Longrightarrow>
     yScale pd dims v =
       Some (margin_top + innerHeight dims - v / of_int m * innerHeight dims)"
  by (simp add: yScale_def js_div_Some)

lemma yScale_val_JNum: "yScale_val pd dims (JNum n) = yScale pd dims (of_int n)"
  by (simp add: yScale_val_def)

lemma yScale_val_SomeD: "yScale_val pd dims v = Some y \<Longrightarrow> maxY pd \<noteq> None"
  by (auto simp: yScale_val_def yScale_def split: option.splits)

lemma xScale_Some:
  "xScale pd dims d =
     Some (margin_left + of_int (indexOf (dates pd) d) / of_int (dateRange pd) * innerWidth dims)"
proof -
  have "dateRange pd \<noteq> 0" using dateRange_ge1 [of pd] by simp
  then show ?thesis by (simp add: xScale_def js_div_Some Let_def)
qed

lemma indexOfFrom_nth:
  "distinct bs \<Longrightarrow> k < length bs \<Longrightarrow> indexOfFrom bs (bs ! k) j = j + int k"
proof (induction bs arbitrary: k j)
  case Nil
  then show ?case by simp
next
  case (Cons b bs)
  show ?case
  proof (cases k)
    case 0
    then show ?thesis by simp
  next
    case (Suc m)
    with Cons.prems have m: "m < length bs" and d: "distinct bs" and nb: "b \<notin> set bs"
      by simp_all
    from m nb have "b \<noteq> bs ! m" by (metis nth_mem)
    with Cons.IH [OF d m] Suc show ?thesis by simp
  qed
qed

lemma indexOf_nth: "distinct bs \<Longrightarrow> k < length bs \<Longrightarrow> indexOf bs (bs ! k) = int k"
  by (simp add: indexOf_def indexOfFrom_nth)

lemma Math_round_of_int: "Math_round (of_int k) = k"
  by (simp add: Math_round_def)

lemma findCluster_sound:
  "findCluster pd dims y vs = Some c \<Longrightarrow>
     \<exists>v \<in> set vs. sv_cluster v = c \<and> js_gt0 (sv_count v) \<and> maxY pd \<noteq> None"
  by (induction vs) (auto split: option.splits if_splits dest: yScale_val_SomeD)

lemma find_cluster_Some:
  "v \<in> set vs \<Longrightarrow> sv_cluster v = c \<Longrightarrow>
     \<exists>w. find (\<lambda>u. sv_cluster u = c) vs = Some w \<and> w \<in> set vs \<and> sv_cluster w = c"
  by (induction vs) auto

lemma at_index_mem: "at_index bs i = Some a \<Longrightarrow> a \<in> set bs"
  by (auto simp: at_index_def split: if_splits)

lemma closestDay_mem: "closestDay pd dims x = Some sd \<Longrightarrow> sd \<in> set (stackedData pd)"
  by (auto simp: closestDay_def Let_def split: option.splits dest: at_index_mem)

lemma closestDay_nth:
  assumes "closestDay pd dims x = Some sd"
  shows "\<exists>k < length (stackedData pd). sd = stackedData pd ! k"
  using closestDay_mem [OF assms] by (metis in_set_conv_nth)

text \<open>What a pointer move leaves in the state, when the chart exists.\<close>

lemma handleMouseMove_result:
  assumes pd: "processedData fd = Some pd"
  shows "handleMouseMove fd dims rect e st = st\<lparr>tooltip := None, hoveredCluster := None\<rparr> \<or>
    (\<exists>k c v. k < length (daily_data fd) \<and>
       closestDay pd dims (clientX e - rect_left rect) = Some (stackedData pd ! k) \<and>
       v \<in> set (sd_values (stackedData pd ! k)) \<and> sv_cluster v = c \<and>
       sv_count v = count_of (daily_data fd ! k) c \<and> js_gt0 (sv_count v) \<and>
       maxY pd \<noteq> None \<and>
       handleMouseMove fd dims rect e st =
         st\<lparr>hoveredCluster := Some c,
            tooltip := (if c = [] then None else Some
              \<lparr>tt_x = clientX e, tt_y = clientY e, tt_date = sd_date (stackedData pd ! k),
               tt_cluster = c, tt_count = sv_count v,
               tt_total = sd_total (stackedData pd ! k), tt_color = color_of fd c\<rparr>)\<rparr>)"
proof -
  let ?x = "clientX e - rect_left rect" and ?y = "clientY e - rect_top rect"
  let ?cleared = "st\<lparr>tooltip := None, hoveredCluster := None\<rparr>"
  show ?thesis
  proof (cases "?x < margin_left \<or> ?x > width dims - margin_right \<or>
                ?y < margin_top \<or> ?y > height dims - margin_bottom")
    case True
    then have "handleMouseMove fd dims rect e st = ?cleared"
      by (simp add: handleMouseMove_def pd Let_def)
    then show ?thesis by blast
  next
    case inside: False
    show ?thesis
    proof (cases "closestDay pd dims ?x")
      case None
      with inside have "handleMouseMove fd dims rect e st = ?cleared"
        by (simp add: handleMouseMove_def pd Let_def)
      then show ?thesis by blast
    next
      case (Some sd)
      from closestDay_nth [OF Some] obtain k
        where k: "k < length (stackedData pd)" and sd: "sd = stackedData pd ! k"
        by blast
      from k have k': "k < length (daily_data fd)"
        by (simp add: processedData_SomeD(2) [OF pd])
      have sdk: "stackedData pd ! k = stackDay (clusters fd) (daily_data fd ! k)"
        using k' by (simp add: processedData_SomeD(2) [OF pd])
      show ?thesis
      proof (cases "findCluster pd dims ?y (sd_values sd)")
        case None
        with inside Some have "handleMouseMove fd dims rect e st = ?cleared"
          by (simp add: handleMouseMove_def pd Let_def)
        then show ?thesis by blast
      next
        case found: (Some c)
        from findCluster_sound [OF found] obtain u
          where u: "u \<in> set (sd_values sd)" "sv_cluster u = c" "js_gt0 (sv_count u)"
            and mx: "maxY pd \<noteq> None"
          by blast
        from find_cluster_Some [OF u(1,2)] obtain v
          where v: "find (\<lambda>w. sv_cluster w = c) (sd_values sd) = Some v"
            "v \<in> set (sd_values sd)" "sv_cluster v = c"
          by blast
        have vals: "sd_values sd = bands (daily_data fd ! k) (clusters fd) (JNum 0)"
          by (simp add: sd sdk stackDay_values)
        from u(1) have "sv_count u = count_of (daily_data fd ! k) c"
          unfolding vals using bands_member u(2) by blast
        moreover from v(2) have cv: "sv_count v = count_of (daily_data fd ! k) c"
          unfolding vals using bands_member v(3) by blast
        ultimately have pos: "js_gt0 (sv_count v)"
          using u(3) by simp
        have "handleMouseMove fd dims rect e st =
            st\<lparr>hoveredCluster := Some c,
               tooltip := (if c = [] then None else Some
                 \<lparr>tt_x = clientX e, tt_y = clientY e, tt_date = sd_date (stackedData pd ! k),
                  tt_cluster = c, tt_count = sv_count v,
                  tt_total = sd_total (stackedData pd ! k), tt_color = color_of fd c\<rparr>)\<rparr>"
          using inside Some found v(1) by (simp add: handleMouseMove_def pd Let_def sd)
        with k' Some v(2,3) cv pos mx show ?thesis
          unfolding sd by blast
      qed
    qed
  qed
qed

lemma sum_list_map_nonneg:
  fixes f :: "'a \<Rightarrow> int"
  shows "\<forall>a \<in> set xs. 0 \<le> f a \<Longrightarrow> 0 \<le> sum_list (map f xs)"
  by (induction xs) simp_all

lemma sum_list_member_le:
  fixes f :: "'a \<Rightarrow> int"
  assumes "\<forall>a \<in> set xs. 0 \<le> f a" and "c \<in> set xs"
  shows "f c \<le> sum_list (map f xs)"
  using assms
proof (induction xs)
  case Nil
  then show ?case by simp
next
  case (Cons a xs)
  then have rest: "0 \<le> sum_list (map f xs)"
    by (simp add: sum_list_map_nonneg)
  show ?case
  proof (cases "c = a")
    case True
    with rest show ?thesis by simp
  next
    case False
    with Cons have "f c \<le> sum_list (map f xs)" by simp
    moreover from Cons.prems have "0 \<le> f a" by simp
    ultimately show ?thesis by simp
  qed
qed

lemma sum_list_take_le:
  fixes f :: "'a \<Rightarrow> int"
  assumes "\<forall>a \<in> set xs. 0 \<le> f a"
  shows "sum_list (map f (take n xs)) \<le> sum_list (map f xs)"
proof -
  have "sum_list (map f xs) = sum_list (map f (take n xs)) + sum_list (map f (drop n xs))"
    by (metis append_take_drop_id map_append sum_list.append)
  moreover have "\<forall>a \<in> set (drop n xs). 0 \<le> f a"
    using assms by (meson in_set_dropD)
  then have "0 \<le> sum_list (map f (drop n xs))"
    by (rule sum_list_map_nonneg)
  ultimately show ?thesis by simp
qed

lemma sum_list_take_nonneg:
  fixes f :: "'a \<Rightarrow> int"
  assumes "\<forall>a \<in> set xs. 0 \<le> f a"
  shows "0 \<le> sum_list (map f (take n xs))"
proof -
  have "\<forall>a \<in> set (take n xs). 0 \<le> f a"
    using assms by (meson in_set_takeD)
  then show ?thesis by (rule sum_list_map_nonneg)
qed

lemma Math_round_percent:
  assumes "1 \<le> c" and "c \<le> t"
  shows "0 \<le> Math_round (of_int c / of_int t * 100)"
    and "Math_round (of_int c / of_int t * 100) \<le> 100"
    and "1 \<le> Math_round (of_int c / of_int t * 100) \<longleftrightarrow> t \<le> 200 * c"
proof -
  let ?q = "(of_int c / of_int t * 100 :: real)"
  from assms have t: "(0::real) < of_int t" by simp
  from assms have "(of_int c :: real) \<le> of_int t" by simp
  with t have q1: "of_int c / (of_int t :: real) \<le> 1" by simp
  from assms t have q0: "0 \<le> of_int c / (of_int t :: real)" by simp
  from q0 show "0 \<le> Math_round ?q"
    by (simp add: Math_round_def)
  from q1 have "?q + 1 / 2 < 101" by simp
  then show "Math_round ?q \<le> 100"
    unfolding Math_round_def by (simp add: floor_le_iff)
  have "1 \<le> Math_round ?q \<longleftrightarrow> (1::real) \<le> ?q + 1 / 2"
    unfolding Math_round_def by (simp add: le_floor_iff)
  also have "\<dots> \<longleftrightarrow> (of_int t :: real) \<le> 200 * of_int c"
    using t by (simp add: field_simps)
  also have "\<dots> \<longleftrightarrow> t \<le> 200 * c"
    by (metis of_int_le_iff of_int_mult of_int_numeral)
  finally show "1 \<le> Math_round ?q \<longleftrightarrow> t \<le> 200 * c" .
qed

lemma yScreen_le_iff:
  fixes a b T H :: real
  assumes "1 \<le> M" and "0 < H"
  shows "T + H - a / of_int M * H \<le> T + H - b / of_int M * H \<longleftrightarrow> b \<le> a"
proof -
  from assms have M: "(0::real) < of_int M" by simp
  have "T + H - a / of_int M * H \<le> T + H - b / of_int M * H \<longleftrightarrow>
        b / of_int M * H \<le> a / of_int M * H"
    by simp
  also have "\<dots> \<longleftrightarrow> b \<le> a"
    using M assms(2) by (simp add: divide_le_cancel mult_le_cancel_right)
  finally show ?thesis .
qed

lemma findCluster_bands_mid:
  assumes mx: "maxY pd = Some M" and m1: "1 \<le> M" and ih: "0 < innerHeight dims"
    and plain: "\<forall>c \<in> set cs. count_of day c = JNum (cnt day c)"
    and nn: "\<forall>c \<in> set cs. 0 \<le> cnt day c"
    and i: "i < length cs" and pos: "0 < cnt day (cs ! i)"
    and y: "yScale pd dims
              ((of_int (b + sum_list (map (cnt day) (take i cs))) +
                of_int (b + sum_list (map (cnt day) (take i cs)) + cnt day (cs ! i))) / 2)
            = Some y"
  shows "findCluster pd dims y (bands day cs (JNum b)) = Some (cs ! i)"
  using plain nn i pos y
proof (induction cs arbitrary: i b)
  case Nil
  then show ?case by simp
next
  case (Cons c cs)
  let ?n = "cnt day c"
  let ?T = "margin_top" and ?H = "innerHeight dims"
  note ys = yScale_val_JNum yScale_Some [OF mx m1, of dims]
  note le = yScreen_le_iff [OF m1 ih, of ?T]
  from Cons.prems have c: "count_of day c = JNum ?n"
    and plain': "\<forall>a \<in> set cs. count_of day a = JNum (cnt day a)"
    and nn': "\<forall>a \<in> set cs. 0 \<le> cnt day a" and n0: "0 \<le> ?n"
    by simp_all
  show ?case
  proof (cases i)
    case 0
    with Cons.prems have n: "0 < ?n" by simp
    from Cons.prems(5) 0
    have y': "y = ?T + ?H - ((of_int b + of_int (b + ?n)) / 2) / of_int M * ?H"
      by (simp add: ys)
    have "?T + ?H - of_int (b + ?n) / of_int M * ?H \<le> y"
      unfolding y' le using n by simp
    moreover have "y \<le> ?T + ?H - of_int b / of_int M * ?H"
      unfolding y' le using n by simp
    ultimately show ?thesis
      using n 0 c by (simp add: ys)
  next
    case (Suc j)
    with Cons.prems have j: "j < length cs" and posj: "0 < cnt day (cs ! j)"
      by simp_all
    let ?pre = "sum_list (map (cnt day) (take j cs))"
    from Cons.prems(5) Suc
    have yj: "yScale pd dims
        ((of_int (b + ?n + ?pre) + of_int (b + ?n + ?pre + cnt day (cs ! j))) / 2) = Some y"
      by (simp add: add.assoc)
    have IH: "findCluster pd dims y (bands day cs (JNum (b + ?n))) = Some (cs ! j)"
      by (rule Cons.IH [OF plain' nn' j posj yj])
    have pre: "0 \<le> ?pre"
      by (rule sum_list_take_nonneg [OF nn'])
    from yj have y': "y = ?T + ?H -
        ((of_int (b + ?n + ?pre) + of_int (b + ?n + ?pre + cnt day (cs ! j))) / 2)
          / of_int M * ?H"
      by (simp add: ys)
    have "\<not> ?T + ?H - of_int (b + ?n) / of_int M * ?H \<le> y"
      unfolding y' le using pre posj by simp
    then show ?thesis
      using IH Suc c by (simp add: ys)
  qed
qed

lemma hoveredCluster_handleMouseMove:
  assumes "processedData fd = Some pd"
    and "\<not> (clientX e - rect_left rect < margin_left \<or>
            clientX e - rect_left rect > width dims - margin_right \<or>
            clientY e - rect_top rect < margin_top \<or>
            clientY e - rect_top rect > height dims - margin_bottom)"
    and "closestDay pd dims (clientX e - rect_left rect) = Some sd"
  shows "hoveredCluster (handleMouseMove fd dims rect e st) =
           findCluster pd dims (clientY e - rect_top rect) (sd_values sd)"
  using assms by (simp add: handleMouseMove_def Let_def split: option.splits)

lemma closestDay_at_xScale:
  assumes iw: "0 < innerWidth dims"
    and n: "length (stackedData pd) = length (dates pd)"
    and k: "k < length (dates pd)"
    and idx: "indexOf (dates pd) d = int k"
  shows "closestDay pd dims
           (margin_left + of_int (int k) / of_int (dateRange pd) * innerWidth dims)
         = Some (stackedData pd ! k)"
proof -
  let ?n = "int (length (dates pd))"
  let ?W = "innerWidth dims"
  have q: "js_div (margin_left + of_int (int k) / of_int (dateRange pd) * ?W - margin_left) ?W
      = Some (of_int (int k) / of_int (dateRange pd))"
    using iw by (simp add: js_div_def)
  have "(of_int (int k) / of_int (dateRange pd) * of_int (?n - 1) :: real) = of_int (int k)"
  proof (cases "length (dates pd) = 1")
    case True
    with k show ?thesis by simp
  next
    case False
    with k have "dateRange pd = ?n - 1" and "?n - 1 \<noteq> 0"
      by (simp_all add: dateRange_def)
    then show ?thesis by simp
  qed
  then have r: "Math_round (of_int (int k) / of_int (dateRange pd) * of_int (?n - 1)) = int k"
    by (simp only: Math_round_of_int)
  have c: "max 0 (min (int k) (?n - 1)) = int k"
    using k by simp
  have "at_index (stackedData pd) (int k) = Some (stackedData pd ! k)"
    using k n by (simp add: at_index_def)
  with q r c show ?thesis
    by (simp add: closestDay_def Let_def)
qed

lemma unit_fraction_bounds:
  fixes a m :: real
  assumes "0 \<le> a" and "a \<le> m" and "0 < m" and "0 < w"
  shows "0 \<le> a / m * w" and "a / m * w \<le> w"
proof -
  from assms have f0: "0 \<le> a / m" and f1: "a / m \<le> 1" by simp_all
  from f0 assms(4) show "0 \<le> a / m * w"
    by (intro mult_nonneg_nonneg) simp_all
  from f1 assms(4) have "a / m * w \<le> 1 * w"
    by (intro mult_right_mono) simp_all
  then show "a / m * w \<le> w" by simp
qed

lemma maxPaperCount_ge1: "1 \<le> maxPaperCount g"
  by (simp add: maxPaperCount_def Math_max1_ge1)

lemma maxLinkStrength_ge1: "1 \<le> maxLinkStrength g"
  by (simp add: maxLinkStrength_def Math_max1_ge1)

lemma getNodeSize_finite:
  assumes "1 \<le> m"
  shows "\<exists>r. getNodeSize h s m n = Some r"
proof -
  from assms have "(of_int m :: real) \<noteq> 0" by simp
  then have "js_div (of_int (paperCount n)) (of_int m)
      = Some (of_int (paperCount n) / of_int m)"
    by (rule js_div_Some)
  then show ?thesis
    unfolding getNodeSize_def Let_def
    by (simp only: option.map option.case split: if_split) blast
qed

lemma getLinkWidth_finite:
  assumes "1 \<le> m"
  shows "\<exists>w. getLinkWidth h m l = Some w"
proof -
  from assms have "(of_int m :: real) \<noteq> 0" by simp
  then have "js_div (of_int (gl_sharedCount l)) (of_int m)
      = Some (of_int (gl_sharedCount l) / of_int m)"
    by (rule js_div_Some)
  then show ?thesis
    unfolding getLinkWidth_def Let_def
    by (simp only: option.map option.case split: if_split) blast
qed

lemma mem_connectedIds:
  "a \<in> set (connectedIds g) \<longleftrightarrow> (\<exists>l \<in> set (links g). source l = a \<or> target l = a)"
  by (auto simp: connectedIds_def)

lemma mem_isolatedNodeIds:
  "a \<in> set (isolatedNodeIds g) \<longleftrightarrow>
     a \<in> node_id ` set (nodes g) \<and> \<not> (\<exists>l \<in> set (links g). source l = a \<or> target l = a)"
  by (auto simp: isolatedNodeIds_def mem_connectedIds)

lemma node_id_toGraphNode: "node_id (toGraphNode n) = node_id n"
  by (simp add: toGraphNode_def)

section \<open>Claims\<close>

text \<open>
  The stack builder on snapshots where no count is an inherited member: one stacked day
  per day, in order; one band per entry of \<open>clusters\<close>, in that order; band \<open>i\<close>
  carries the day's count for cluster \<open>i\<close> (0 when the key is absent), starts at the
  sum of the counts before it and ends at that sum plus its count; each band starts where
  the previous one ends, the first at 0; the total is \<open>y1\<close> of the last band.
\<close>

lemma cnt_plain:
  "count_of day c \<noteq> JMember \<Longrightarrow>
     cnt day c = (case cluster_counts day c of None \<Rightarrow> 0 | Some n \<Rightarrow> n)"
  by (auto simp: cnt_def count_of_def js_get_def split: option.splits if_splits)

lemma stack_builder_numbers:
  assumes dd: "daily_data fd \<noteq> []" and ni: "no_inherited_counts fd"
  shows "\<exists>pd. processedData fd = Some pd \<and>
    length (stackedData pd) = length (daily_data fd) \<and>
    (\<forall>k < length (daily_data fd).
       sd_date (stackedData pd ! k) = date (daily_data fd ! k) \<and>
       length (sd_values (stackedData pd ! k)) = length (clusters fd) \<and>
       (\<forall>i < length (clusters fd).
          sv_cluster (sd_values (stackedData pd ! k) ! i) = clusters fd ! i \<and>
          sv_count (sd_values (stackedData pd ! k) ! i) =
            JNum (case cluster_counts (daily_data fd ! k) (clusters fd ! i) of
                    None \<Rightarrow> 0 | Some n \<Rightarrow> n) \<and>
          (\<exists>a. sv_y0 (sd_values (stackedData pd ! k) ! i) = JNum a \<and>
               sv_y1 (sd_values (stackedData pd ! k) ! i) =
                 JNum (a + cnt (daily_data fd ! k) (clusters fd ! i)))) \<and>
       (\<forall>i. Suc i < length (clusters fd) \<longrightarrow>
          sv_y0 (sd_values (stackedData pd ! k) ! Suc i) =
            sv_y1 (sd_values (stackedData pd ! k) ! i)) \<and>
       (clusters fd \<noteq> [] \<longrightarrow>
          sv_y0 (hd (sd_values (stackedData pd ! k))) = JNum 0 \<and>
          sd_total (stackedData pd ! k) = sv_y1 (last (sd_values (stackedData pd ! k)))))"
proof -
  from processedData_Some [OF dd] obtain pd where pd: "processedData fd = Some pd"
    by blast
  note pdD = processedData_SomeD [OF pd]
  let ?cs = "clusters fd"
  have day: "sd_date (stackedData pd ! k) = date (daily_data fd ! k) \<and>
       length (sd_values (stackedData pd ! k)) = length ?cs \<and>
       (\<forall>i < length ?cs.
          sv_cluster (sd_values (stackedData pd ! k) ! i) = ?cs ! i \<and>
          sv_count (sd_values (stackedData pd ! k) ! i) =
            JNum (case cluster_counts (daily_data fd ! k) (?cs ! i) of
                    None \<Rightarrow> 0 | Some n \<Rightarrow> n) \<and>
          (\<exists>a. sv_y0 (sd_values (stackedData pd ! k) ! i) = JNum a \<and>
               sv_y1 (sd_values (stackedData pd ! k) ! i) =
                 JNum (a + cnt (daily_data fd ! k) (?cs ! i)))) \<and>
       (\<forall>i. Suc i < length ?cs \<longrightarrow>
          sv_y0 (sd_values (stackedData pd ! k) ! Suc i) =
            sv_y1 (sd_values (stackedData pd ! k) ! i)) \<and>
       (?cs \<noteq> [] \<longrightarrow>
          sv_y0 (hd (sd_values (stackedData pd ! k))) = JNum 0 \<and>
          sd_total (stackedData pd ! k) = sv_y1 (last (sd_values (stackedData pd ! k))))"
    if k: "k < length (daily_data fd)" for k
  proof -
    let ?day = "daily_data fd ! k"
    from k have mem: "?day \<in> set (daily_data fd)" by simp
    have sdk: "stackedData pd ! k = stackDay ?cs ?day"
      using k by (simp add: pdD(2))
    have vals: "sd_values (stackedData pd ! k) = bands ?day ?cs (JNum 0)"
      by (simp add: sdk stackDay_values)
    have plain: "\<forall>c \<in> set ?cs. count_of ?day c = JNum (cnt ?day c)"
      using no_inherited_countsD [OF ni mem] by blast
    have own: "cnt ?day (?cs ! i) =
        (case cluster_counts ?day (?cs ! i) of None \<Rightarrow> 0 | Some n \<Rightarrow> n)"
      if "i < length ?cs" for i
      using plain that by (intro cnt_plain) simp
    have a: "sd_date (stackedData pd ! k) = date ?day"
      by (simp add: sdk stackDay_date)
    have b: "length (sd_values (stackedData pd ! k)) = length ?cs"
      by (simp add: vals length_bands)
    have c: "\<forall>i < length ?cs.
          sv_cluster (sd_values (stackedData pd ! k) ! i) = ?cs ! i \<and>
          sv_count (sd_values (stackedData pd ! k) ! i) =
            JNum (case cluster_counts ?day (?cs ! i) of None \<Rightarrow> 0 | Some n \<Rightarrow> n) \<and>
          (\<exists>a. sv_y0 (sd_values (stackedData pd ! k) ! i) = JNum a \<and>
               sv_y1 (sd_values (stackedData pd ! k) ! i) = JNum (a + cnt ?day (?cs ! i)))"
      by (simp add: vals bands_nth [OF plain] own)
    have d: "\<forall>i. Suc i < length ?cs \<longrightarrow>
          sv_y0 (sd_values (stackedData pd ! k) ! Suc i) =
            sv_y1 (sd_values (stackedData pd ! k) ! i)"
      by (simp add: vals bands_nth [OF plain] take_Suc_sum)
    have e: "?cs \<noteq> [] \<longrightarrow>
          sv_y0 (hd (sd_values (stackedData pd ! k))) = JNum 0 \<and>
          sd_total (stackedData pd ! k) = sv_y1 (last (sd_values (stackedData pd ! k)))"
      by (simp add: sdk stackDay_values stackDay_total total_num [OF plain] bands_hd_y0
          bands_last_y1 [OF plain])
    from a b c d e show ?thesis by blast
  qed
  have "length (stackedData pd) = length (daily_data fd)"
    by (simp add: pdD(2))
  with pd day show ?thesis
    by (intro exI [of _ pd]) simp
qed

text \<open>
  C1, at an input where the code departs from it. The clusters are \<open>constructor\<close> and
  X and the only day has the single entry X = 2. The key \<open>constructor\<close> is absent from
  the day's counts, and the count read for it is not 0 but the member that every object
  inherits; \<open>y1\<close> of its band, both bounds of the band of X, and the day's total are
  strings.
\<close>

theorem C1_inherited_member_evaluation:
  "cluster_counts (daily_data flow_proto ! 0) ''constructor'' = None \<and>
   map_option (\<lambda>pd. map sd_values (stackedData pd)) (processedData flow_proto) =
     Some [[\<lparr>sv_cluster = ''constructor'', sv_y0 = JNum 0, sv_y1 = JStr, sv_count = JMember\<rparr>,
            \<lparr>sv_cluster = ''X'', sv_y0 = JStr, sv_y1 = JStr, sv_count = JNum 2\<rparr>]] \<and>
   map_option (\<lambda>pd. map sd_total (stackedData pd)) (processedData flow_proto) = Some [JStr]"
  by (simp add: flow_proto_def flow_eval)

text \<open>
  C2 (amended). Take a snapshot with at least one day, pairwise distinct dates, counts
  that are non-negative and none of them an inherited member, and a plot area of positive
  inner width and height. For every day \<open>k\<close> and every cluster \<open>i\<close> whose count on
  that day is positive, the band's bounds are numbers, both scale values of its midpoint
  are finite, and a pointer at \<open>(xScale(date k), yScale((y0 + y1) / 2))\<close> makes
  \<open>handleMouseMove\<close> set exactly that cluster as the hovered cluster.
\<close>

theorem C2_midpoint_hit:
  assumes dd: "daily_data fd \<noteq> []"
    and dist: "distinct (map date (daily_data fd))"
    and ni: "no_inherited_counts fd"
    and nn: "nonneg_counts fd"
    and iw: "0 < innerWidth dims" and ih: "0 < innerHeight dims"
    and k: "k < length (daily_data fd)" and i: "i < length (clusters fd)"
    and pos: "js_gt0 (count_of (daily_data fd ! k) (clusters fd ! i))"
  shows "\<exists>pd px py a b. processedData fd = Some pd \<and>
      xScale pd dims (date (daily_data fd ! k)) = Some px \<and>
      sv_y0 (sd_values (stackedData pd ! k) ! i) = JNum a \<and>
      sv_y1 (sd_values (stackedData pd ! k) ! i) = JNum b \<and>
      yScale pd dims ((of_int a + of_int b) / 2) = Some py \<and>
      (\<forall>rect e st.
         clientX e - rect_left rect = px \<and> clientY e - rect_top rect = py \<longrightarrow>
         hoveredCluster (handleMouseMove fd dims rect e st) = Some (clusters fd ! i))"
proof -
  let ?cs = "clusters fd" and ?day = "daily_data fd ! k"
  let ?cnt = "cnt ?day"
  from processedData_Some [OF dd] obtain pd where pd: "processedData fd = Some pd"
    by blast
  note pdD = processedData_SomeD [OF pd]
  from k have mem: "?day \<in> set (daily_data fd)" by simp
  have sdk: "stackedData pd ! k = stackDay ?cs ?day"
    using k by (simp add: pdD(2))
  have vals: "sd_values (stackedData pd ! k) = bands ?day ?cs (JNum 0)"
    by (simp add: sdk stackDay_values)
  have plain: "\<forall>c \<in> set ?cs. count_of ?day c = JNum (?cnt c)"
    using no_inherited_countsD [OF ni mem] by blast
  have nnk: "\<forall>c \<in> set ?cs. 0 \<le> ?cnt c"
    using nonneg_countsD [OF nn mem] by blast
  from js_gt0D [OF pos] have cpos: "0 < ?cnt (?cs ! i)"
    by (auto simp: cnt_def)
  \<comment> \<open>the x coordinate\<close>
  have kd: "k < length (dates pd)" using k by (simp add: pdD(3))
  have "indexOf (dates pd) (dates pd ! k) = int k"
    using dist kd by (intro indexOf_nth) (simp_all add: pdD(3))
  then have idx: "indexOf (dates pd) (date ?day) = int k"
    using k by (simp add: pdD(3))
  let ?px = "margin_left + of_int (int k) / of_int (dateRange pd) * innerWidth dims"
  have px: "xScale pd dims (date ?day) = Some ?px"
    by (simp add: xScale_Some idx)
  have "int k \<le> dateRange pd"
    using kd by (simp add: dateRange_def)
  then have kle: "(of_int (int k) :: real) \<le> of_int (dateRange pd)"
    by (simp only: of_int_le_iff)
  have rpos: "(0::real) < of_int (dateRange pd)"
    using dateRange_ge1 [of pd] by simp
  have k0: "(0::real) \<le> of_int (int k)" by simp
  note xb = unit_fraction_bounds [OF k0 kle rpos iw]
  have xin: "\<not> ?px < margin_left" "\<not> ?px > width dims - margin_right"
    using xb by (simp_all add: innerWidth_def)
  have day: "closestDay pd dims ?px = Some (stackedData pd ! k)"
    by (rule closestDay_at_xScale [OF iw _ kd idx]) (simp add: pdD(2,3))
  \<comment> \<open>the y coordinate\<close>
  let ?tot = "\<lambda>day. sum_list (map (cnt day) ?cs)"
  let ?M = "Math_max1 (map ?tot (daily_data fd))"
  have mx: "maxY pd = Some ?M"
    by (rule maxY_num [OF pd ni])
  have m1: "1 \<le> ?M"
    by (rule Math_max1_ge1)
  let ?pre = "sum_list (map ?cnt (take i ?cs))"
  let ?a = "0 + ?pre" and ?b = "0 + ?pre + ?cnt (?cs ! i)"
  let ?mid = "(of_int ?a + of_int ?b) / 2 :: real"
  let ?py = "margin_top + innerHeight dims - ?mid / of_int ?M * innerHeight dims"
  have py: "yScale pd dims ?mid = Some ?py"
    by (rule yScale_Some [OF mx m1])
  have pre0: "0 \<le> ?pre"
    by (rule sum_list_take_nonneg [OF nnk])
  have "?pre + ?cnt (?cs ! i) = sum_list (map ?cnt (take (Suc i) ?cs))"
    using i by (simp add: take_Suc_sum)
  also have "\<dots> \<le> ?tot ?day"
    by (rule sum_list_take_le [OF nnk])
  also have "\<dots> \<le> ?M"
    using mem by (intro Math_max1_ge) simp
  finally have top: "?pre + ?cnt (?cs ! i) \<le> ?M" .
  have y0: "sv_y0 (sd_values (stackedData pd ! k) ! i) = JNum ?a"
    and y1: "sv_y1 (sd_values (stackedData pd ! k) ! i) = JNum ?b"
    by (simp_all add: vals bands_nth [OF plain i])
  have mid0: "0 \<le> ?mid"
    using pre0 cpos by simp
  have "?mid \<le> (of_int (?pre + ?cnt (?cs ! i)) :: real)"
    using cpos by simp
  also have "\<dots> \<le> of_int ?M"
    using top by (simp only: of_int_le_iff)
  finally have midM: "?mid \<le> of_int ?M" .
  have mpos: "(0::real) < of_int ?M" using m1 by simp
  note yb = unit_fraction_bounds [OF mid0 midM mpos ih]
  have yin: "\<not> ?py < margin_top" "\<not> ?py > height dims - margin_bottom"
    using yb by (simp_all add: innerHeight_def)
  have hit: "findCluster pd dims ?py (bands ?day ?cs (JNum 0)) = Some (?cs ! i)"
    by (rule findCluster_bands_mid [OF mx m1 ih plain nnk i cpos py])
  have main: "hoveredCluster (handleMouseMove fd dims rect e st) = Some (?cs ! i)"
    if at: "clientX e - rect_left rect = ?px" "clientY e - rect_top rect = ?py"
    for rect e st
  proof -
    have inside: "\<not> (clientX e - rect_left rect < margin_left \<or>
            clientX e - rect_left rect > width dims - margin_right \<or>
            clientY e - rect_top rect < margin_top \<or>
            clientY e - rect_top rect > height dims - margin_bottom)"
      unfolding at using xin yin by blast
    have "closestDay pd dims (clientX e - rect_left rect) = Some (stackedData pd ! k)"
      unfolding at by (rule day)
    from hoveredCluster_handleMouseMove [OF pd inside this]
    show ?thesis
      unfolding at vals hit .
  qed
  show ?thesis
    by (intro exI [of _ pd] exI [of _ ?px] exI [of _ ?py] exI [of _ ?a] exI [of _ ?b]
        conjI allI impI pd px y0 y1 py main)
      simp_all
qed

text \<open>
  On the test suite's three-day data, at the default viewport: the band of
  ``Computer Vision'' on the second day runs from 7 to 11, its midpoint 9 maps to the
  screen point (355, 152), and a pointer there hovers that cluster.
\<close>

theorem C2_midpoint_hit_witness:
  "daily_data flow_mock \<noteq> [] \<and> distinct (map date (daily_data flow_mock)) \<and>
   no_inherited_counts flow_mock \<and> nonneg_counts flow_mock \<and>
   0 < innerWidth dims0 \<and> 0 < innerHeight dims0 \<and>
   (1::nat) < length (daily_data flow_mock) \<and> (1::nat) < length (clusters flow_mock) \<and>
   js_gt0 (count_of (daily_data flow_mock ! 1) (clusters flow_mock ! 1)) \<and>
   map_option (\<lambda>pd. xScale pd dims0 (date (daily_data flow_mock ! 1))) (processedData flow_mock)
     = Some (Some 355) \<and>
   map_option (\<lambda>pd. (sv_y0 (sd_values (stackedData pd ! 1) ! 1),
                      sv_y1 (sd_values (stackedData pd ! 1) ! 1))) (processedData flow_mock)
     = Some (JNum 7, JNum 11) \<and>
   map_option (\<lambda>pd. yScale pd dims0 ((7 + 11) / 2)) (processedData flow_mock)
     = Some (Some 152) \<and>
   hoveredCluster (handleMouseMove flow_mock dims0 rect0 \<lparr>clientX = 355, clientY = 152\<rparr> st0)
     = Some ''Computer Vision''"
  using C2_midpoint_hit [of flow_mock dims0 1 1]
  by (simp add: flow_mock_def nonneg_counts_def no_inherited_counts_def flow_eval)

text \<open>
  C2 as stated fails when two entries carry the same date: \<open>xScale\<close> places a date at its
  first position in \<open>dates\<close>. In \<open>flow_dup\<close> cluster Y has count 1 on the second
  entry, where its band runs from 0 to 1; the midpoint of that band maps to (60, 185),
  and a pointer there resolves cluster X of the first entry.
\<close>

theorem C2_duplicate_dates_counterexample:
  "daily_data flow_dup \<noteq> [] \<and> nonneg_counts flow_dup \<and> no_inherited_counts flow_dup \<and>
   count_of (daily_data flow_dup ! 1) (clusters flow_dup ! 1) = JNum 1 \<and>
   clusters flow_dup ! 1 = ''Y'' \<and>
   map_option (\<lambda>pd. xScale pd dims0 (date (daily_data flow_dup ! 1))) (processedData flow_dup)
     = Some (Some 60) \<and>
   map_option (\<lambda>pd. (sv_y0 (sd_values (stackedData pd ! 1) ! 1),
                      sv_y1 (sd_values (stackedData pd ! 1) ! 1))) (processedData flow_dup)
     = Some (JNum 0, JNum 1) \<and>
   map_option (\<lambda>pd. yScale pd dims0 ((0 + 1) / 2)) (processedData flow_dup)
     = Some (Some 185) \<and>
   hoveredCluster (handleMouseMove flow_dup dims0 rect0 \<lparr>clientX = 60, clientY = 185\<rparr> st0)
     = Some ''X''"
  by (simp add: flow_dup_def nonneg_counts_def no_inherited_counts_def flow_eval)

text \<open>
  C3 (amended). \<open>transformedData\<close> hands every link of the snapshot to the force graph,
  position by position and with its endpoint ids unchanged; no link is filtered out,
  whether or not its endpoints are ids of nodes. The node list it hands over has the
  snapshot's node ids in order and does not depend on the links.
\<close>

theorem C3_links_passed_through:
  "length (gi_links (transformedData g)) = length (links g) \<and>
   (\<forall>k < length (links g).
      gl_source (gi_links (transformedData g) ! k) = EndId (source (links g ! k)) \<and>
      gl_target (gi_links (transformedData g) ! k) = EndId (target (links g ! k))) \<and>
   gi_nodes (transformedData (g\<lparr>links := ls\<rparr>)) = gi_nodes (transformedData g) \<and>
   map node_id (gi_nodes (transformedData g)) = map node_id (nodes g)"
  by (simp add: transformedData_def toGraphLink_def node_id_toGraphNode comp_def)

theorem C3_links_passed_through_witness:
  "map (\<lambda>l. (endpoint_id (gl_source l), endpoint_id (gl_target l)))
     (gi_links (transformedData graph_abc)) = [(''A'', ''B'')] \<and>
   map node_id (gi_nodes (transformedData graph_abc)) = [''A'', ''B'', ''C''] \<and>
   gi_nodes (transformedData (graph_abc\<lparr>links := []\<rparr>)) = gi_nodes (transformedData graph_abc)"
  using C3_links_passed_through [of graph_abc "[]"]
  by (simp add: graph_abc_def graph_eval)

text \<open>
  C3 as stated fails: in \<open>graph_dangling\<close> the only link ends at Z, which is the id of
  no node, and the link is among those handed to the force graph.
\<close>

theorem C3_dangling_link_counterexample:
  "map (\<lambda>l. (gl_source l, gl_target l)) (gi_links (transformedData graph_dangling))
     = [(EndId ''A'', EndId ''Z'')] \<and>
   ''Z'' \<notin> set (map node_id (nodes graph_dangling))"
  by (simp add: graph_dangling_def graph_eval)

text \<open>
  The scale denominators. For every graph snapshot \<open>maxPaperCount\<close> and
  \<open>maxLinkStrength\<close> are at least 1 and the node radius and link width are finite; for
  every flow snapshot the date range that divides in \<open>xScale\<close> is at least 1 and
  \<open>xScale\<close> is finite; and where no count is an inherited member, \<open>maxY\<close> is a number,
  at least 1, and \<open>yScale\<close> is finite.
\<close>

lemma denominators_floored:
  "1 \<le> maxPaperCount g \<and> 1 \<le> maxLinkStrength g \<and>
   (\<exists>r. getNodeSize h s (maxPaperCount g) n = Some r) \<and>
   (\<exists>w. getLinkWidth h (maxLinkStrength g) l = Some w) \<and>
   (\<forall>pd. processedData fd = Some pd \<longrightarrow>
      1 \<le> dateRange pd \<and> (\<exists>x. xScale pd dims d = Some x) \<and>
      (no_inherited_counts fd \<longrightarrow>
         (\<exists>m. maxY pd = Some m \<and> 1 \<le> m) \<and> (\<exists>y. yScale pd dims v = Some y)))"
proof -
  have "1 \<le> dateRange pd \<and> (\<exists>x. xScale pd dims d = Some x) \<and>
      (no_inherited_counts fd \<longrightarrow>
         (\<exists>m. maxY pd = Some m \<and> 1 \<le> m) \<and> (\<exists>y. yScale pd dims v = Some y))"
    if pd: "processedData fd = Some pd" for pd
  proof -
    have "(\<exists>m. maxY pd = Some m \<and> 1 \<le> m) \<and> (\<exists>y. yScale pd dims v = Some y)"
      if ni: "no_inherited_counts fd"
      using maxY_num [OF pd ni] Math_max1_ge1 yScale_Some [of pd _ dims v] by blast
    with dateRange_ge1 [of pd] xScale_Some [of pd dims d]
    show ?thesis by simp
  qed
  with maxPaperCount_ge1 [of g] maxLinkStrength_ge1 [of g]
    getNodeSize_finite [OF maxPaperCount_ge1, of h s g n]
    getLinkWidth_finite [OF maxLinkStrength_ge1, of h g l]
  show ?thesis by blast
qed

text \<open>
  C4, at an input where the code departs from it. With clusters \<open>constructor\<close> and X
  and the single day X = 2, the day's total is a string, \<open>Math.max\<close> of it and 1 is NaN,
  and \<open>yScale\<close> is NaN at every value: the floor of 1 does not hold for \<open>maxY\<close>.
\<close>

theorem C4_inherited_member_evaluation:
  "map_option (\<lambda>pd. map sd_total (stackedData pd)) (processedData flow_proto) = Some [JStr] \<and>
   map_option maxY (processedData flow_proto) = Some None \<and>
   map_option (\<lambda>pd. yScale pd dims0 0) (processedData flow_proto) = Some None \<and>
   map_option (\<lambda>pd. yScale pd dims0 2) (processedData flow_proto) = Some None"
  by (simp add: flow_proto_def flow_eval)

text \<open>
  C5 (amended). For every node whose \<open>paperCount\<close> is not 0 the collision radius is the
  radius \<open>getNodeSize\<close> gives the node when nothing is hovered or selected, plus 40. For
  a node whose \<open>paperCount\<close> is 0 the collision callback puts 1 in its place: the
  collision radius is \<open>12 + 28 * 1 / maxPaperCount + 40\<close>, the drawn radius
  \<open>12 + 28 * 0 / maxPaperCount\<close>.
\<close>

theorem C5_collision_radius:
  "(paperCount n \<noteq> 0 \<longrightarrow>
      collisionRadius m n = map_option (\<lambda>b. b + 40) (getNodeSize None None m n)) \<and>
   (paperCount n = 0 \<longrightarrow>
      collisionRadius m n = map_option (\<lambda>q. 12 + q * 28 + 40) (js_div 1 (of_int m)) \<and>
      getNodeSize None None m n = map_option (\<lambda>q. 12 + q * 28) (js_div 0 (of_int m)))"
  by (simp add: collisionRadius_def getNodeSize_def js_div_def Let_def)

text \<open>The spec's scenario: A is drawn with radius 40, B with 26; B collides at 66.\<close>

theorem C5_collision_radius_witness:
  "paperCount (toGraphNode (mkNode ''B'' 5)) \<noteq> 0 \<and>
   collisionRadius (maxPaperCount graph_abc) (toGraphNode (mkNode ''B'' 5)) = Some 66 \<and>
   getNodeSize None None (maxPaperCount graph_abc) (toGraphNode (mkNode ''B'' 5)) = Some 26 \<and>
   getNodeSize None None (maxPaperCount graph_abc) (toGraphNode (mkNode ''A'' 10)) = Some 40"
  using C5_collision_radius [of "toGraphNode (mkNode ''B'' 5)" "maxPaperCount graph_abc"]
  by (simp add: graph_abc_def graph_eval)

text \<open>
  C5 as stated fails at \<open>paperCount = 0\<close>: node C of \<open>graph_abc\<close> is drawn with radius 12,
  so the claim gives a collision radius of 52, and the callback returns 54.8.
\<close>

theorem C5_zero_count_counterexample:
  "paperCount (toGraphNode (mkNode ''C'' 0)) = 0 \<and>
   collisionRadius (maxPaperCount graph_abc) (toGraphNode (mkNode ''C'' 0)) = Some (548 / 10) \<and>
   map_option (\<lambda>b. b + 40)
     (getNodeSize None None (maxPaperCount graph_abc) (toGraphNode (mkNode ''C'' 0))) = Some 52"
  by (simp add: graph_abc_def graph_eval)

text \<open>
  C6. For every node handed to the solver: if no link of the snapshot names its id as
  source or target, both centering strengths are 0.15; otherwise both are 0.02. Hence,
  for an isolated node and a connected node at the same positive distance \<open>d\<close> from the
  centre, strength times distance is strictly greater for the isolated node, on both
  axes.
\<close>

theorem C6_centering_strength:
  assumes "n \<in> set (gi_nodes (transformedData g))"
  shows "(incident g (node_id n) = [] \<longrightarrow>
            forceX_strength g n = 15 / 100 \<and> forceY_strength g n = 15 / 100) \<and>
         (incident g (node_id n) \<noteq> [] \<longrightarrow>
            forceX_strength g n = 2 / 100 \<and> forceY_strength g n = 2 / 100) \<and>
         (\<forall>m \<in> set (gi_nodes (transformedData g)). \<forall>d > 0.
            incident g (node_id n) = [] \<and> incident g (node_id m) \<noteq> [] \<longrightarrow>
            forceX_strength g m * d < forceX_strength g n * d \<and>
            forceY_strength g m * d < forceY_strength g n * d)"
proof -
  have inc: "incident g a = [] \<longleftrightarrow> \<not> (\<exists>l \<in> set (links g). source l = a \<or> target l = a)" for a
    by (auto simp: incident_def filter_empty_conv)
  have ids: "node_id m \<in> node_id ` set (nodes g)"
    if "m \<in> set (gi_nodes (transformedData g))" for m
    using that by (auto simp: transformedData_def node_id_toGraphNode)
  have iso: "forceX_strength g m = 15 / 100 \<and> forceY_strength g m = 15 / 100"
    if "m \<in> set (gi_nodes (transformedData g))" "incident g (node_id m) = []" for m
    using that ids [OF that(1)]
    by (simp add: forceX_strength_def forceY_strength_def mem_isolatedNodeIds inc)
  have con: "forceX_strength g m = 2 / 100 \<and> forceY_strength g m = 2 / 100"
    if "incident g (node_id m) \<noteq> []" for m
    using that
    by (simp add: forceX_strength_def forceY_strength_def mem_isolatedNodeIds inc)
  have strict: "forceX_strength g m * d < forceX_strength g n * d \<and>
      forceY_strength g m * d < forceY_strength g n * d"
    if "0 < d" "incident g (node_id n) = []" "incident g (node_id m) \<noteq> []" for m d
    using iso [OF assms that(2)] con [OF that(3)] that(1) by simp
  show ?thesis
    using iso [OF assms] con [of n] strict by blast
qed

text \<open>In \<open>graph_abc\<close> node C has no link and node A has one.\<close>

theorem C6_centering_strength_witness:
  "toGraphNode (mkNode ''C'' 0) \<in> set (gi_nodes (transformedData graph_abc)) \<and>
   toGraphNode (mkNode ''A'' 10) \<in> set (gi_nodes (transformedData graph_abc)) \<and>
   incident graph_abc ''C'' = [] \<and> incident graph_abc ''A'' = [mkLink ''A'' ''B'' 3] \<and>
   forceX_strength graph_abc (toGraphNode (mkNode ''C'' 0)) = 15 / 100 \<and>
   forceY_strength graph_abc (toGraphNode (mkNode ''C'' 0)) = 15 / 100 \<and>
   forceX_strength graph_abc (toGraphNode (mkNode ''A'' 10)) = 2 / 100 \<and>
   forceY_strength graph_abc (toGraphNode (mkNode ''A'' 10)) = 2 / 100 \<and>
   forceX_strength graph_abc (toGraphNode (mkNode ''A'' 10)) * 100
     < forceX_strength graph_abc (toGraphNode (mkNode ''C'' 0)) * 100"
  using C6_centering_strength [of "toGraphNode (mkNode ''C'' 0)" graph_abc]
  by (simp add: graph_abc_def graph_eval)

text \<open>
  C7. Whenever the chart exists, for every pointer position and previous state: if
  \<open>handleMouseMove\<close> leaves a cluster hovered, the pointer matched a day on which that
  cluster's count is a positive number; and if it leaves a tooltip, the tooltip is for
  the hovered cluster and shows a positive count. So a band with count 0 is never the
  hovered cluster and never produces a tooltip.
\<close>

theorem C7_zero_count_never_hit:
  assumes pd: "processedData fd = Some pd"
  shows "(\<forall>c. hoveredCluster (handleMouseMove fd dims rect e st) = Some c \<longrightarrow>
            (\<exists>k < length (daily_data fd).
               closestDay pd dims (clientX e - rect_left rect) = Some (stackedData pd ! k) \<and>
               (\<exists>n. count_of (daily_data fd ! k) c = JNum n \<and> 0 < n))) \<and>
         (\<forall>t. tooltip (handleMouseMove fd dims rect e st) = Some t \<longrightarrow>
            hoveredCluster (handleMouseMove fd dims rect e st) = Some (tt_cluster t) \<and>
            (\<exists>n. tt_count t = JNum n \<and> 0 < n))"
  using handleMouseMove_result [OF pd, of dims rect e st]
  by (elim disjE exE conjE) (simp, auto split: if_splits dest: js_gt0D)

text \<open>
  The spec's scenario: Y has count 0 and its band has zero height at the top of the plot
  (screen y = 20). A pointer there resolves X, whose count is 3.
\<close>

theorem C7_zero_count_never_hit_witness:
  "map_option (\<lambda>pd. map sd_total (stackedData pd)) (processedData flow_xy) = Some [JNum 3] \<and>
   count_of (daily_data flow_xy ! 0) ''Y'' = JNum 0 \<and>
   count_of (daily_data flow_xy ! 0) ''X'' = JNum 3 \<and>
   map_option (\<lambda>pd. yScale pd dims0 3) (processedData flow_xy) = Some (Some 20) \<and>
   hoveredCluster (handleMouseMove flow_xy dims0 rect0 \<lparr>clientX = 60, clientY = 20\<rparr> st0)
     = Some ''X'' \<and>
   map_option tt_count
     (tooltip (handleMouseMove flow_xy dims0 rect0 \<lparr>clientX = 60, clientY = 20\<rparr> st0))
     = Some (JNum 3)"
  using C7_zero_count_never_hit [of flow_xy "the (processedData flow_xy)" dims0 rect0
      "\<lparr>clientX = 60, clientY = 20\<rparr>" st0]
  by (simp add: flow_xy_def flow_eval)

text \<open>
  C8 (amended). While a cluster with a non-empty name is hovered, \<open>handleClick\<close> selects
  it unless it is the selected cluster, in which case it clears the selection; hover and
  tooltip are untouched, so a second click undoes a first one that selected the cluster.
  When a tooltip is set and the host passed \<open>onClusterClick\<close>, the host is called with
  the cluster name and the tooltip's date, and it is not called without a callback. After
  a pointer move over the chart that is the date of the day the pointer matched. A click
  on a legend row toggles the selection in the same way.
\<close>

theorem C8_click_toggles:
  assumes hov: "hoveredCluster st = Some c" and ne: "c \<noteq> []"
  shows "selectedCluster (fst (handleClick cb st)) =
           (if selectedCluster st = Some c then None else Some c) \<and>
         hoveredCluster (fst (handleClick cb st)) = Some c \<and>
         tooltip (fst (handleClick cb st)) = tooltip st \<and>
         (selectedCluster st \<noteq> Some c \<longrightarrow>
            selectedCluster (fst (handleClick cb (fst (handleClick cb st)))) = None) \<and>
         (\<forall>t. tooltip st = Some t \<longrightarrow> snd (handleClick True st) = Some (c, tt_date t)) \<and>
         snd (handleClick False st) = None \<and>
         (\<forall>fd pd dims rect e st'.
            processedData fd = Some pd \<and> st = handleMouseMove fd dims rect e st' \<longrightarrow>
            (\<exists>k < length (daily_data fd).
               closestDay pd dims (clientX e - rect_left rect) = Some (stackedData pd ! k) \<and>
               snd (handleClick True st) = Some (c, date (daily_data fd ! k)))) \<and>
         selectedCluster (legendClick c st) =
           (if selectedCluster st = Some c then None else Some c)"
proof -
  have click: "handleClick b st =
      (st\<lparr>selectedCluster := (if selectedCluster st = Some c then None else Some c)\<rparr>,
       (case tooltip st of None \<Rightarrow> None
        | Some t \<Rightarrow> if b then Some (c, tt_date t) else None))" for b
    using hov ne by (simp add: handleClick_def)
  have sel: "selectedCluster (fst (handleClick cb st)) =
      (if selectedCluster st = Some c then None else Some c)"
    and hov': "hoveredCluster (fst (handleClick cb st)) = Some c"
    and tip: "tooltip (fst (handleClick cb st)) = tooltip st"
    using hov by (simp_all add: click)
  have twice: "selectedCluster (fst (handleClick cb (fst (handleClick cb st)))) = None"
    if "selectedCluster st \<noteq> Some c"
    using that hov ne by (simp add: click handleClick_def)
  have note1: "snd (handleClick True st) = Some (c, tt_date t)" if "tooltip st = Some t" for t
    using that by (simp add: click)
  have note0: "snd (handleClick False st) = None"
    by (simp add: click split: option.splits)
  have moved: "\<exists>k < length (daily_data fd).
      closestDay pd dims (clientX e - rect_left rect) = Some (stackedData pd ! k) \<and>
      snd (handleClick True st) = Some (c, date (daily_data fd ! k))"
    if pd: "processedData fd = Some pd" and st: "st = handleMouseMove fd dims rect e st'"
    for fd pd dims rect e st'
  proof -
    from handleMouseMove_result [OF pd, of dims rect e st'] hov ne
    obtain k where k: "k < length (daily_data fd)"
      and day: "closestDay pd dims (clientX e - rect_left rect) = Some (stackedData pd ! k)"
      and tt: "map_option tt_date (tooltip st) = Some (sd_date (stackedData pd ! k))"
      unfolding st by (elim disjE exE conjE) (simp, auto split: if_splits)
    have "sd_date (stackedData pd ! k) = date (daily_data fd ! k)"
      using k by (simp add: processedData_SomeD(2) [OF pd] stackDay_date)
    with tt have "snd (handleClick True st) = Some (c, date (daily_data fd ! k))"
      by (auto simp: click split: option.splits)
    with k day show ?thesis by blast
  qed
  have legend: "selectedCluster (legendClick c st) =
      (if selectedCluster st = Some c then None else Some c)"
    by (simp add: legendClick_def)
  from sel hov' tip twice note1 note0 moved legend show ?thesis
    by blast
qed

text \<open>
  On the test data: after a pointer move onto ``Computer Vision'' on the second day, a
  click selects it and calls the host with that name and date; a second click clears
  the selection.
\<close>

theorem C8_click_toggles_witness:
  "hoveredCluster (handleMouseMove flow_mock dims0 rect0 \<lparr>clientX = 355, clientY = 152\<rparr> st0)
     = Some ''Computer Vision'' \<and>
   ''Computer Vision'' \<noteq> [] \<and>
   selectedCluster (fst (handleClick True
     (handleMouseMove flow_mock dims0 rect0 \<lparr>clientX = 355, clientY = 152\<rparr> st0)))
     = Some ''Computer Vision'' \<and>
   snd (handleClick True
     (handleMouseMove flow_mock dims0 rect0 \<lparr>clientX = 355, clientY = 152\<rparr> st0))
     = Some (''Computer Vision'', ''2024-01-02'') \<and>
   selectedCluster (fst (handleClick True (fst (handleClick True
     (handleMouseMove flow_mock dims0 rect0 \<lparr>clientX = 355, clientY = 152\<rparr> st0)))))
     = None"
  using C8_click_toggles [of
      "handleMouseMove flow_mock dims0 rect0 \<lparr>clientX = 355, clientY = 152\<rparr> st0"
      "''Computer Vision''" True]
  by (simp add: flow_mock_def flow_eval handleClick_def)

text \<open>
  C8 as stated fails for a cluster whose name is the empty string: in \<open>flow_noname\<close> a
  pointer on its band makes it the hovered cluster, and a click then changes nothing and
  calls nobody.
\<close>

theorem C8_empty_name_counterexample:
  "hoveredCluster (handleMouseMove flow_noname dims0 rect0 \<lparr>clientX = 60, clientY = 185\<rparr> st0)
     = Some [] \<and>
   handleClick True (handleMouseMove flow_noname dims0 rect0 \<lparr>clientX = 60, clientY = 185\<rparr> st0)
     = (\<lparr>tooltip = None, hoveredCluster = Some [], selectedCluster = None\<rparr>, None)"
  by (simp add: flow_noname_def flow_eval handleClick_def)

text \<open>
  C9. For a snapshot whose \<open>daily_data\<close> is empty nothing is stacked
  (\<open>processedData\<close> is null), no scale is built, the drawing effect returns before
  painting, a pointer move changes nothing, and the component renders the message
  ``No flow data available'' in place of the chart.
\<close>

theorem C9_empty_flow:
  assumes "daily_data fd = []"
  shows "processedData fd = None \<and> scales fd dims = None \<and> drawChart fd dims st = None \<and>
         render fd st = EmptyState ''No flow data available'' \<and>
         handleMouseMove fd dims rect e st = st"
  using assms
  by (simp add: processedData_def scales_def drawChart_def render_def handleMouseMove_def)

theorem C9_empty_flow_witness:
  "daily_data flow_none = [] \<and> processedData flow_none = None \<and>
   scales flow_none dims0 = None \<and> drawChart flow_none dims0 st0 = None \<and>
   render flow_none st0 = EmptyState ''No flow data available''"
  using C9_empty_flow [of flow_none dims0 st0 rect0 "\<lparr>clientX = 0, clientY = 0\<rparr>"]
  by (simp add: flow_none_def)

text \<open>
  C10 (amended). For a snapshot with non-negative counts, whenever \<open>handleMouseMove\<close>
  leaves a tooltip, its count and its total are numbers, the count is at least 1 and the
  total is at least the count, so the division in the percentage is never by zero; the
  percentage \<open>Math.round(100 * count / total)\<close> is an integer between 0 and 100, and it
  is at least 1 exactly when \<open>total \<le> 200 * count\<close>.
\<close>

theorem C10_tooltip_percentage:
  assumes pd: "processedData fd = Some pd"
    and nn: "nonneg_counts fd"
    and tt: "tooltip (handleMouseMove fd dims rect e st) = Some t"
  shows "\<exists>c tot. tt_count t = JNum c \<and> tt_total t = JNum tot \<and>
         1 \<le> c \<and> c \<le> tot \<and>
         (\<exists>p. tooltip_percent t = Some p \<and> 0 \<le> p \<and> p \<le> 100 \<and>
              (1 \<le> p \<longleftrightarrow> tot \<le> 200 * c))"
proof -
  from handleMouseMove_result [OF pd, of dims rect e st] tt
  obtain k c v where k: "k < length (daily_data fd)"
    and v: "v \<in> set (sd_values (stackedData pd ! k))" "sv_cluster v = c"
      "sv_count v = count_of (daily_data fd ! k) c" "js_gt0 (sv_count v)"
    and mx: "maxY pd \<noteq> None"
    and t: "tt_count t = sv_count v" "tt_total t = sd_total (stackedData pd ! k)"
    by (elim disjE exE conjE) (simp, auto split: if_splits)
  let ?day = "daily_data fd ! k" and ?cs = "clusters fd"
  note pdD = processedData_SomeD [OF pd]
  from k have mem: "?day \<in> set (daily_data fd)" by simp
  have sdk: "stackedData pd ! k = stackDay ?cs ?day"
    using k by (simp add: pdD(2))
  \<comment> \<open>\<open>maxY\<close> is a number, so every total is, and so is every count of the day\<close>
  from mx obtain m where "Math_max1_js (map sd_total (stackedData pd)) = Some m"
    by (auto simp: pdD(4))
  from Math_max1_js_Some [OF this] obtain ns
    where ns: "map sd_total (stackedData pd) = map JNum ns"
    by blast
  from k have "sd_total (stackedData pd ! k) \<in> set (map sd_total (stackedData pd))"
    by (simp add: pdD(2))
  with ns obtain tot where tot: "sd_total (stackedData pd ! k) = JNum tot"
    by auto
  then have "foldl js_add (JNum 0) (map (count_of ?day) ?cs) = JNum tot"
    by (simp add: sdk stackDay_total)
  from foldl_js_add_JNum [OF this]
  have "\<forall>a \<in> set ?cs. \<exists>n. count_of ?day a = JNum n"
    by blast
  then have plain: "\<forall>a \<in> set ?cs. count_of ?day a = JNum (cnt ?day a)"
    by (auto simp: cnt_def)
  from total_num [OF plain, of 0] tot
  have sum: "tot = sum_list (map (cnt ?day) ?cs)"
    by (simp add: sdk stackDay_total)
  from v(1,2) have c: "c \<in> set ?cs"
    unfolding sdk stackDay_values using bands_member by blast
  have nnk: "\<forall>a \<in> set ?cs. 0 \<le> cnt ?day a"
    using nonneg_countsD [OF nn mem] by blast
  from js_gt0D [OF v(4)] obtain n where n: "sv_count v = JNum n" "0 < n"
    by blast
  with v(3) have "count_of ?day c = JNum n"
    by simp
  then have cn: "cnt ?day c = n"
    by (rule count_of_JNum)
  from sum_list_member_le [OF nnk c] have le: "n \<le> tot"
    by (simp add: sum cn)
  from n have one: "1 \<le> n" by simp
  from one le have "tot \<noteq> 0" by simp
  then have pc: "tooltip_percent t =
      Some (Math_round (of_int n / of_int tot * 100))"
    by (simp add: tooltip_percent_def t n tot js_div_Some)
  from one le pc Math_round_percent [OF one le] t n tot show ?thesis
    by simp
qed

text \<open>
  On the test data: ``Computer Vision'' holds 4 of the 14 papers of the second day, shown
  as 29 percent.
\<close>

theorem C10_tooltip_percentage_witness:
  "map_option (\<lambda>pd. map sd_total (stackedData pd)) (processedData flow_mock)
     = Some [JNum 10, JNum 14, JNum 15] \<and>
   nonneg_counts flow_mock \<and>
   map_option (\<lambda>t. (tt_cluster t, tt_date t, tt_count t, tt_total t, tooltip_percent t))
     (tooltip (handleMouseMove flow_mock dims0 rect0 \<lparr>clientX = 355, clientY = 152\<rparr> st0))
     = Some (''Computer Vision'', ''2024-01-02'', JNum 4, JNum 14, Some 29)"
  using C10_tooltip_percentage [of flow_mock "the (processedData flow_mock)" dims0 rect0
      "\<lparr>clientX = 355, clientY = 152\<rparr>" st0
      "the (tooltip (handleMouseMove flow_mock dims0 rect0 \<lparr>clientX = 355, clientY = 152\<rparr> st0))"]
  by (simp add: flow_mock_def nonneg_counts_def flow_eval tooltip_percent_def)

text \<open>
  C10 as stated fails in its lower bound: in \<open>flow_small\<close> cluster X holds 1 paper of
  300, a pointer on its band produces a tooltip, and the percentage shown is 0.
\<close>

theorem C10_zero_percent_counterexample:
  "nonneg_counts flow_small \<and>
   tooltip (handleMouseMove flow_small dims0 rect0 \<lparr>clientX = 60, clientY = 350\<rparr> st0) =
     Some \<lparr>tt_x = 60, tt_y = 350, tt_date = ''2024-01-01'', tt_cluster = ''X'',
           tt_count = JNum 1, tt_total = JNum 300, tt_color = Own ''#6B7280''\<rparr> \<and>
   tooltip_percent \<lparr>tt_x = 60, tt_y = 350, tt_date = ''2024-01-01'', tt_cluster = ''X'',
           tt_count = JNum 1, tt_total = JNum 300, tt_color = Own ''#6B7280''\<rparr> = Some 0"
  by (simp add: flow_small_def nonneg_counts_def flow_eval tooltip_percent_def)

end
